theory Spec2Isabelle
  imports Complex_Main "HOL-Library.Multiset" "HOL-Library.Product_Lexorder"
begin

section \<open>Values, errors and Python primitives\<close>

text \<open>
  The metadata analyser and the cost calculator of the HDFS cost advisor are embedded as
  HOL functions. Python's unbounded \<open>int\<close> is \<^typ>\<open>int\<close>; Python's \<open>float\<close> is
  \<^typ>\<open>real\<close> (rounding is not modelled); an exception is the \<open>Inl\<close> branch of a sum.
  The wall clock read by \<open>datetime.now()\<close> is an explicit argument \<open>current_time\<close>
  (milliseconds), one reading per call, as the source samples it once before its loop.
\<close>

datatype error = ZeroDivisionError | ValueError string | KeyError string

text \<open>\<open>d.get(key, default)\<close>: a key that is absent is \<open>None\<close>.\<close>

definition dict_get :: "'a option \<Rightarrow> 'a \<Rightarrow> 'a" where
  "dict_get v dflt = (case v of None \<Rightarrow> dflt | Some x \<Rightarrow> x)"

text \<open>Python's true division \<open>a / b\<close> on numbers raises when the divisor is zero.\<close>

definition truediv :: "real \<Rightarrow> real \<Rightarrow> error + real" where
  "truediv a b = (if b = 0 then Inl ZeroDivisionError else Inr (a / b))"

text \<open>
  \<open>list.sort(key=k, reverse=True)\<close>: CPython reverses the list, sorts it stably by
  ascending key and reverses it again, so that equal keys keep their original order.
\<close>

definition sort_reverse :: "('a \<Rightarrow> 'k::linorder) \<Rightarrow> 'a list \<Rightarrow> 'a list" where
  "sort_reverse k xs = rev (sort_key k (rev xs))"

section \<open>File metadata records\<close>

text \<open>
  A file-metadata dictionary. Every key is read with \<open>.get\<close> and a default, so every
  field is optional. A classified entry \<open>{**file_info, "classification": ..., ...}\<close> is a
  record extension: it keeps all the fields of the file and adds its own.
\<close>

record file_info =
  path :: "string option"
  size_bytes :: "int option"
  replication :: "int option"
  access_time :: "int option"
  modification_time :: "int option"
  block_size :: "int option"
  owner :: "string option"
  group :: "string option"

record classified = file_info +
  classification :: string

record cold_entry = classified +
  days_since_access :: real
  cold_score :: real

definition ms_per_day :: real where
  "ms_per_day = 24 * 60 * 60 * 1000"

section \<open>Cold data\<close>

text \<open>
  The body of the loop of \<open>identify_cold_data\<close> for one file: \<open>None\<close> when the file is
  not cold, the new entry when it is, and the exception of the division by
  \<open>cold_threshold_days\<close>.
\<close>

definition cold_entry_of :: "real \<Rightarrow> int \<Rightarrow> file_info \<Rightarrow> error + cold_entry option" where
  "cold_entry_of current_time cold_threshold_days file_info =
     (let cold_threshold = current_time - (real_of_int cold_threshold_days * 24 * 60 * 60 * 1000);
          access_time = dict_get (access_time file_info) 0
      in if real_of_int access_time < cold_threshold then
           (let days_since_access = (current_time - real_of_int access_time) / (24 * 60 * 60 * 1000)
            in case truediv days_since_access (real_of_int cold_threshold_days) of
                 Inl e \<Rightarrow> Inl e
               | Inr q \<Rightarrow> Inr (Some (classified.extend
                    (file_info.extend file_info (classified.fields ''cold''))
                    (cold_entry.fields days_since_access (min q 1)))))
         else Inr None)"

fun cold_loop :: "real \<Rightarrow> int \<Rightarrow> file_info list \<Rightarrow> cold_entry list \<Rightarrow> error + cold_entry list" where
  "cold_loop current_time cold_threshold_days [] cold_data = Inr cold_data"
| "cold_loop current_time cold_threshold_days (file_info # rest) cold_data =
     (case cold_entry_of current_time cold_threshold_days file_info of
        Inl e \<Rightarrow> Inl e
      | Inr None \<Rightarrow> cold_loop current_time cold_threshold_days rest cold_data
      | Inr (Some entry) \<Rightarrow> cold_loop current_time cold_threshold_days rest (cold_data @ [entry]))"

definition identify_cold_data :: "real \<Rightarrow> file_info list \<Rightarrow> int \<Rightarrow> error + cold_entry list" where
  "identify_cold_data current_time file_metadata cold_threshold_days =
     (case cold_loop current_time cold_threshold_days file_metadata [] of
        Inl e \<Rightarrow> Inl e
      | Inr cold_data \<Rightarrow> Inr (sort_reverse cold_score cold_data))"

text \<open>
  The vocabulary of the specification for cold data, stated on any record that has the
  fields of a file: the cutoff test, the age in days and the score.
\<close>

definition spec_is_cold :: "real \<Rightarrow> int \<Rightarrow> 'a file_info_scheme \<Rightarrow> bool" where
  "spec_is_cold now_ms threshold_days r \<longleftrightarrow>
     real_of_int (dict_get (access_time r) 0) < now_ms - real_of_int threshold_days * ms_per_day"

definition spec_days_since_access :: "real \<Rightarrow> 'a file_info_scheme \<Rightarrow> real" where
  "spec_days_since_access now_ms r =
     (now_ms - real_of_int (dict_get (access_time r) 0)) / ms_per_day"

definition spec_cold_score :: "real \<Rightarrow> int \<Rightarrow> 'a file_info_scheme \<Rightarrow> real" where
  "spec_cold_score now_ms threshold_days r =
     min (spec_days_since_access now_ms r / real_of_int threshold_days) 1.0"

definition cold_tag :: "real \<Rightarrow> int \<Rightarrow> file_info \<Rightarrow> cold_entry" where
  "cold_tag now_ms d f = classified.extend (file_info.extend f (classified.fields ''cold''))
     (cold_entry.fields (spec_days_since_access now_ms f) (spec_cold_score now_ms d f))"

text \<open>Sample files used by the concrete evaluations below.\<close>

definition never_accessed :: file_info where
  "never_accessed = \<lparr>path = Some ''/logs/old.log'', size_bytes = Some 5, replication = Some 3,
     access_time = Some 0, modification_time = Some 0, block_size = None,
     owner = None, group = None\<rparr>"

definition accessed_at :: "int \<Rightarrow> file_info" where
  "accessed_at t = \<lparr>path = Some ''/logs/new.log'', size_bytes = Some 7, replication = Some 3,
     access_time = Some t, modification_time = Some t, block_size = None,
     owner = None, group = None\<rparr>"

section \<open>Strings\<close>

text \<open>
  Strings are lists of bytes. \<open>str.lower\<close> is modelled on ASCII letters, which is where
  the temporary-file patterns live; \<open>pattern in s\<close> is the substring test.
\<close>

definition lower_char :: "char \<Rightarrow> char" where
  "lower_char c = (let n = (of_char c :: nat) in if 65 \<le> n \<and> n \<le> 90 then char_of (n + 32) else c)"

definition lower :: "string \<Rightarrow> string" where
  "lower s = map lower_char s"

fun startswith :: "string \<Rightarrow> string \<Rightarrow> bool" where
  "startswith s [] = True"
| "startswith [] (p # ps) = False"
| "startswith (c # cs) (p # ps) = (c = p \<and> startswith cs ps)"

fun str_in :: "string \<Rightarrow> string \<Rightarrow> bool" where
  "str_in pattern [] = (pattern = [])"
| "str_in pattern (c # cs) = (startswith (c # cs) pattern \<or> str_in pattern cs)"

text \<open>\<open>s.split(sep)\<close> for a one-character separator, and \<open>sep.join(parts)\<close>.\<close>

fun split :: "char \<Rightarrow> string \<Rightarrow> string list" where
  "split sep [] = [[]]"
| "split sep (c # cs) =
     (if c = sep then [] # split sep cs
      else (c # hd (split sep cs)) # tl (split sep cs))"

fun join :: "string \<Rightarrow> string list \<Rightarrow> string" where
  "join sep [] = []"
| "join sep [part] = part"
| "join sep (part # parts) = part @ sep @ join sep parts"

section \<open>File efficiency\<close>

record efficiency_entry = classified +
  efficiency_impact :: string

record small_entry = efficiency_entry +
  size_mb :: real

record over_replicated_entry = classified +
  current_replication :: int
  suggested_replication :: int
  excess_replicas :: int

definition empty_file_entry :: "file_info \<Rightarrow> efficiency_entry" where
  "empty_file_entry file_info =
     classified.extend (file_info.extend file_info (classified.fields ''empty_file''))
       (efficiency_entry.fields ''medium'')"

definition small_file_entry :: "file_info \<Rightarrow> small_entry" where
  "small_file_entry file_info =
     (let size = dict_get (size_bytes file_info) 0
      in efficiency_entry.extend
           (classified.extend (file_info.extend file_info (classified.fields ''small_file''))
              (efficiency_entry.fields (if size < 1024 * 1024 then ''high'' else ''medium'')))
           (small_entry.fields (real_of_int size / (1024 * 1024))))"

definition over_replicated_file_entry :: "file_info \<Rightarrow> over_replicated_entry" where
  "over_replicated_file_entry file_info =
     (let replication = dict_get (replication file_info) 1
      in classified.extend (file_info.extend file_info (classified.fields ''over_replicated''))
           (over_replicated_entry.fields replication 3 (replication - 3)))"

text \<open>
  The loop of \<open>analyze_file_efficiency\<close> over the three lists it appends to:
  \<open>small_files\<close>, \<open>inefficient_replication\<close> and \<open>empty_files\<close>.
\<close>

fun efficiency_loop :: "file_info list
    \<Rightarrow> small_entry list \<times> over_replicated_entry list \<times> efficiency_entry list
    \<Rightarrow> small_entry list \<times> over_replicated_entry list \<times> efficiency_entry list" where
  "efficiency_loop [] acc = acc"
| "efficiency_loop (file_info # rest) (small_files, inefficient_replication, empty_files) =
     (let size = dict_get (size_bytes file_info) 0;
          replication = dict_get (replication file_info) 1;
          empty_files' = (if size = 0 then empty_files @ [empty_file_entry file_info]
                          else empty_files);
          small_files' = (if size = 0 then small_files
                          else if size < 64 * 1024 * 1024
                               then small_files @ [small_file_entry file_info]
                          else small_files);
          inefficient_replication' =
            (if replication > 3
             then inefficient_replication @ [over_replicated_file_entry file_info]
             else inefficient_replication)
      in efficiency_loop rest (small_files', inefficient_replication', empty_files'))"

record efficiency_summary =
  critical_issues :: int
  moderate_issues :: int
  storage_waste_factor :: real

text \<open>
  The dictionary returned by \<open>analyze_file_efficiency\<close>. Its keys \<open>total_files\<close>,
  \<open>small_files\<close> and \<open>empty_files\<close> carry the suffix \<open>_e\<close> here, since the scan results
  have keys of the same names.
\<close>

record file_efficiency =
  total_files_e :: int
  small_files_e :: "small_entry list"
  small_files_count :: int
  small_files_percentage :: real
  empty_files_e :: "efficiency_entry list"
  empty_files_count :: int
  inefficient_replication :: "over_replicated_entry list"
  over_replicated_count :: int
  over_replicated_percentage :: real
  efficiency_summary :: efficiency_summary

definition len :: "'a list \<Rightarrow> int" where
  "len xs = int (length xs)"

definition analyze_file_efficiency :: "file_info list \<Rightarrow> file_efficiency" where
  "analyze_file_efficiency file_metadata =
     (let total_files = len file_metadata;
          (small_files, inefficient_replication, empty_files) =
             efficiency_loop file_metadata ([], [], []);
          small_files_percentage =
            (if total_files > 0
             then (real_of_int (len small_files) / real_of_int total_files) * 100 else 0);
          over_replicated_percentage =
            (if total_files > 0
             then (real_of_int (len inefficient_replication) / real_of_int total_files) * 100
             else 0)
      in \<lparr>total_files_e = total_files,
          small_files_e = small_files,
          small_files_count = len small_files,
          small_files_percentage = small_files_percentage,
          empty_files_e = empty_files,
          empty_files_count = len empty_files,
          inefficient_replication = inefficient_replication,
          over_replicated_count = len inefficient_replication,
          over_replicated_percentage = over_replicated_percentage,
          efficiency_summary =
            \<lparr>critical_issues = len empty_files
                 + len (filter (\<lambda>f. efficiency_impact f = ''high'') small_files),
              moderate_issues = len (filter (\<lambda>f. efficiency_impact f = ''medium'') small_files),
              storage_waste_factor = (real_of_int (len small_files) * 0.1)
                 + (real_of_int (len inefficient_replication) * 0.2)\<rparr>\<rparr>)"

section \<open>Orphaned temporary files\<close>

record orphaned_entry = classified +
  age_days :: real
  cleanup_priority :: string
  temp_pattern :: string

definition temp_patterns :: "string list" where
  "temp_patterns = [''/tmp/'', ''/var/tmp/'', ''/_temporary/'', ''/temp/'',
                    ''.tmp'', ''.temp'', ''.bak'', ''.backup'', ''_tmp'', ''_temp'']"

text \<open>
  The body of the loop of \<open>identify_orphaned_temp_files\<close> for one file: the entry it
  appends, or \<open>None\<close> when the file is not a temporary file older than 7 days.
\<close>

definition orphaned_entry_of :: "real \<Rightarrow> file_info \<Rightarrow> orphaned_entry option" where
  "orphaned_entry_of current_time file_info =
     (let path = dict_get (path file_info) '''';
          modification_time = dict_get (modification_time file_info) 0;
          is_temp = list_ex (\<lambda>pattern. str_in pattern (lower path)) temp_patterns
      in if is_temp then
           (let file_age_days =
                  (current_time - real_of_int modification_time) / (24 * 60 * 60 * 1000)
            in if file_age_days > 7 then
                 (let cleanup_priority = (if file_age_days > 30 then ''high'' else ''medium'');
                      cleanup_priority = (if file_age_days > 90 then ''critical''
                                          else cleanup_priority)
                  in Some (classified.extend
                       (file_info.extend file_info (classified.fields ''orphaned_temp''))
                       (orphaned_entry.fields file_age_days cleanup_priority
                          (case find (\<lambda>p. str_in p (lower path)) temp_patterns of
                             None \<Rightarrow> ''unknown'' | Some p \<Rightarrow> p))))
               else None)
         else None)"

definition identify_orphaned_temp_files :: "real \<Rightarrow> file_info list \<Rightarrow> orphaned_entry list" where
  "identify_orphaned_temp_files current_time file_metadata =
     sort_reverse age_days (List.map_filter (orphaned_entry_of current_time) file_metadata)"

section \<open>Duplicate candidates\<close>

record duplicate_entry = classified +
  group_size :: int
  filename :: string
  duplicate_score :: real

text \<open>
  \<open>size_groups\<close> is a \<open>defaultdict(list)\<close>; its keys keep their insertion order, so it is
  an association list. \<open>size_groups[size].append(file_info)\<close>:
\<close>

fun size_groups_append :: "(int \<times> file_info list) list \<Rightarrow> int \<Rightarrow> file_info
    \<Rightarrow> (int \<times> file_info list) list" where
  "size_groups_append [] key file_info = [(key, [file_info])]"
| "size_groups_append ((k, files) # groups) key file_info =
     (if k = key then (k, files @ [file_info]) # groups
      else (k, files) # size_groups_append groups key file_info)"

fun size_groups_loop :: "file_info list \<Rightarrow> (int \<times> file_info list) list
    \<Rightarrow> (int \<times> file_info list) list" where
  "size_groups_loop [] size_groups = size_groups"
| "size_groups_loop (file_info # rest) size_groups =
     (let size = dict_get (size_bytes file_info) 0
      in if size > 0 then size_groups_loop rest (size_groups_append size_groups size file_info)
         else size_groups_loop rest size_groups)"

definition duplicate_entry_of :: "file_info list \<Rightarrow> file_info \<Rightarrow> duplicate_entry" where
  "duplicate_entry_of files file_info =
     (let path = dict_get (path file_info) '''';
          filename = (if path \<noteq> [] then last (split CHR ''/'' path) else '''')
      in classified.extend
           (file_info.extend file_info (classified.fields ''potential_duplicate''))
           (duplicate_entry.fields (len files) filename (real_of_int (len files) / 10)))"

definition detect_duplicate_candidates :: "file_info list \<Rightarrow> duplicate_entry list" where
  "detect_duplicate_candidates file_metadata =
     (let size_groups = size_groups_loop file_metadata [];
          duplicate_candidates =
            concat (map (\<lambda>(size, files).
                      if len files > 1 then map (duplicate_entry_of files) files else [])
                    size_groups)
      in sort_reverse duplicate_score duplicate_candidates)"

section \<open>Storage waste\<close>

text \<open>
  The dictionary returned by \<open>calculate_storage_waste\<close>; its key \<open>total_size_gb\<close> carries
  the suffix \<open>_w\<close>, the scan results having a key of that name.
\<close>

record storage_waste =
  total_size_bytes :: int
  total_size_gb_w :: real
  replication_waste_bytes :: int
  replication_waste_gb :: real
  empty_file_waste_bytes :: int
  small_file_overhead_bytes :: int
  total_waste_bytes :: int
  waste_percentage :: real

fun replication_waste_loop :: "file_info list \<Rightarrow> int \<Rightarrow> int" where
  "replication_waste_loop [] replication_waste = replication_waste"
| "replication_waste_loop (file_info # rest) replication_waste =
     (let size = dict_get (size_bytes file_info) 0;
          replication = dict_get (replication file_info) 1
      in if replication > 3
         then replication_waste_loop rest (replication_waste + size * (replication - 3))
         else replication_waste_loop rest replication_waste)"

definition calculate_storage_waste :: "file_info list \<Rightarrow> storage_waste" where
  "calculate_storage_waste file_metadata =
     (let total_size = sum_list (map (\<lambda>file_info. dict_get (size_bytes file_info) 0) file_metadata);
          replication_waste = replication_waste_loop file_metadata 0;
          empty_file_waste =
            sum_list (map (\<lambda>file_info. dict_get (block_size file_info) 0)
                       (filter (\<lambda>file_info. dict_get (size_bytes file_info) 0 = 0) file_metadata));
          small_file_overhead =
            len (filter (\<lambda>f. dict_get (size_bytes f) 0 < 64 * 1024 * 1024) file_metadata) * 150
      in \<lparr>total_size_bytes = total_size,
          total_size_gb_w = real_of_int total_size / (1024 ^ 3),
          replication_waste_bytes = replication_waste,
          replication_waste_gb = real_of_int replication_waste / (1024 ^ 3),
          empty_file_waste_bytes = empty_file_waste,
          small_file_overhead_bytes = small_file_overhead,
          total_waste_bytes = replication_waste + empty_file_waste + small_file_overhead,
          waste_percentage =
            (if total_size > 0
             then (real_of_int (replication_waste + empty_file_waste + small_file_overhead)
                   / real_of_int total_size) * 100
             else 0)\<rparr>)"

section \<open>Directory structure\<close>

text \<open>
  One value of \<open>directory_stats\<close>. The key \<open>small_files\<close> of the source is the field
  \<open>small_files_d\<close>; \<open>small_file_ratio\<close> is absent until the second loop sets it.
\<close>

record dir_stats =
  file_count :: int
  total_size :: int
  small_files_d :: int
  large_files :: int
  avg_file_size :: real
  small_file_ratio :: "real option"

definition dir_stats_default :: dir_stats where
  "dir_stats_default = \<lparr>file_count = 0, total_size = 0, small_files_d = 0, large_files = 0,
     avg_file_size = 0, small_file_ratio = None\<rparr>"

text \<open>The directory of a path, line 175 of the analyser.\<close>

definition directory_of :: "string \<Rightarrow> string" where
  "directory_of p =
     (if CHR ''/'' \<in> set p then join ''/'' (butlast (split CHR ''/'' p)) else ''/'')"

text \<open>
  \<open>directory_stats\<close> is a \<open>defaultdict\<close>, here an association list in insertion order.
  \<open>dir_stats_update\<close> applies \<open>upd\<close> to the entry of \<open>directory\<close>, creating it from the
  default first when the key is new.
\<close>

fun dir_stats_update :: "(string \<times> dir_stats) list \<Rightarrow> string \<Rightarrow> (dir_stats \<Rightarrow> dir_stats)
    \<Rightarrow> (string \<times> dir_stats) list" where
  "dir_stats_update [] directory upd = [(directory, upd dir_stats_default)]"
| "dir_stats_update ((d, stats) # rest) directory upd =
     (if d = directory then (d, upd stats) # rest
      else (d, stats) # dir_stats_update rest directory upd)"

definition count_file :: "int \<Rightarrow> dir_stats \<Rightarrow> dir_stats" where
  "count_file sz stats =
     (let stats = stats\<lparr>file_count := file_count stats + 1\<rparr>;
          stats = stats\<lparr>total_size := total_size stats + sz\<rparr>
      in if sz < 64 * 1024 * 1024 then stats\<lparr>small_files_d := small_files_d stats + 1\<rparr>
         else stats\<lparr>large_files := large_files stats + 1\<rparr>)"

fun directory_loop :: "file_info list \<Rightarrow> (string \<times> dir_stats) list
    \<Rightarrow> (string \<times> dir_stats) list" where
  "directory_loop [] directory_stats = directory_stats"
| "directory_loop (file_info # rest) directory_stats =
     (let path = dict_get (path file_info) '''';
          sz = dict_get (size_bytes file_info) 0;
          directory = directory_of path
      in directory_loop rest (dir_stats_update directory_stats directory (count_file sz)))"

record problematic_directory =
  directory :: string
  issue :: string
  small_file_ratio_p :: real
  file_count_p :: int
  total_size_mb :: real
  optimization_potential :: string

definition finish_stats :: "dir_stats \<Rightarrow> dir_stats" where
  "finish_stats stats =
     (if file_count stats > 0
      then stats\<lparr>avg_file_size := real_of_int (total_size stats) / real_of_int (file_count stats),
                 small_file_ratio :=
                   Some (real_of_int (small_files_d stats) / real_of_int (file_count stats))\<rparr>
      else stats)"

definition problematic_of :: "string \<times> dir_stats \<Rightarrow> problematic_directory list" where
  "problematic_of entry =
     (case entry of (d, stats) \<Rightarrow>
        (case small_file_ratio stats of
           None \<Rightarrow> []
         | Some ratio \<Rightarrow>
             if file_count stats > 0 \<and> ratio > 0.7 \<and> file_count stats > 10
             then [\<lparr>directory = d, issue = ''high_small_file_ratio'',
                    small_file_ratio_p = ratio, file_count_p = file_count stats,
                    total_size_mb = real_of_int (total_size stats) / (1024 * 1024),
                    optimization_potential = ''file_consolidation''\<rparr>]
             else []))"

record directory_analysis =
  directory_stats :: "(string \<times> dir_stats) list"
  problematic_directories :: "problematic_directory list"
  total_directories :: int
  consolidation_candidates :: int

definition analyze_directory_structure :: "file_info list \<Rightarrow> directory_analysis" where
  "analyze_directory_structure file_metadata =
     (let directory_stats =
            map (\<lambda>(d, stats). (d, finish_stats stats)) (directory_loop file_metadata []);
          problematic_directories = concat (map problematic_of directory_stats)
      in \<lparr>directory_stats = directory_stats,
          problematic_directories = problematic_directories,
          total_directories = len directory_stats,
          consolidation_candidates = len problematic_directories\<rparr>)"

definition root_file :: file_info where
  "root_file = \<lparr>path = Some ''/a.txt'', size_bytes = Some 10, replication = Some 3,
     access_time = Some 0, modification_time = Some 0, block_size = None,
     owner = None, group = None\<rparr>"

section \<open>Optimization priorities\<close>

text \<open>One optimization opportunity; the key \<open>type\<close> of the source is the field \<open>opt_type\<close>.\<close>

record optimization =
  opt_type :: string
  priority :: string
  impact :: string
  affected_files :: int
  potential_savings_gb :: real
  description :: string

definition priority_order :: "string \<rightharpoonup> int" where
  "priority_order = [''high'' \<mapsto> 3, ''medium'' \<mapsto> 2, ''low'' \<mapsto> 1]"

text \<open>
  The sort key \<open>(priority_order[x["priority"]], priority_order[x["impact"]])\<close>; a tag
  that is not a key of \<open>priority_order\<close> raises \<open>KeyError\<close>.
\<close>

definition priority_key :: "optimization \<Rightarrow> error + (int \<times> int)" where
  "priority_key x =
     (case priority_order (priority x) of
        None \<Rightarrow> Inl (KeyError (priority x))
      | Some p \<Rightarrow> (case priority_order (impact x) of
                    None \<Rightarrow> Inl (KeyError (impact x))
                  | Some i \<Rightarrow> Inr (p, i)))"

text \<open>
  \<open>list.sort\<close> computes the key of every element first, in list order, and then sorts
  the elements by these keys.
\<close>

fun decorate :: "('a \<Rightarrow> error + 'k) \<Rightarrow> 'a list \<Rightarrow> error + ('k \<times> 'a) list" where
  "decorate key [] = Inr []"
| "decorate key (x # xs) =
     (case key x of
        Inl e \<Rightarrow> Inl e
      | Inr k \<Rightarrow> (case decorate key xs of Inl e \<Rightarrow> Inl e | Inr ds \<Rightarrow> Inr ((k, x) # ds)))"

definition sort_by_key_reverse :: "('a \<Rightarrow> error + 'k::linorder) \<Rightarrow> 'a list \<Rightarrow> error + 'a list" where
  "sort_by_key_reverse key xs =
     (case decorate key xs of Inl e \<Rightarrow> Inl e | Inr ds \<Rightarrow> Inr (map snd (sort_reverse fst ds)))"

definition cold_data_migration :: "cold_entry list \<Rightarrow> optimization" where
  "cold_data_migration cold_data =
     \<lparr>opt_type = ''cold_data_migration'', priority = ''high'', impact = ''high'',
      affected_files = len cold_data,
      potential_savings_gb =
        real_of_int (sum_list (map (\<lambda>f. dict_get (size_bytes f) 0) cold_data)) / (1024 ^ 3) * 0.7,
      description = ''Migrate cold data to cheaper storage tiers''\<rparr>"

definition small_file_consolidation :: "file_efficiency \<Rightarrow> optimization" where
  "small_file_consolidation efficiency_analysis =
     \<lparr>opt_type = ''small_file_consolidation'', priority = ''high'', impact = ''medium'',
      affected_files = small_files_count efficiency_analysis,
      potential_savings_gb = real_of_int (small_files_count efficiency_analysis) * 0.001,
      description = ''Consolidate small files to reduce metadata overhead''\<rparr>"

definition orphaned_file_cleanup :: "orphaned_entry list \<Rightarrow> optimization" where
  "orphaned_file_cleanup orphaned_files =
     \<lparr>opt_type = ''orphaned_file_cleanup'', priority = ''medium'', impact = ''medium'',
      affected_files = len orphaned_files,
      potential_savings_gb =
        real_of_int (sum_list (map (\<lambda>f. dict_get (size_bytes f) 0) orphaned_files)) / (1024 ^ 3),
      description = ''Remove orphaned temporary files''\<rparr>"

definition replication_optimization :: "file_efficiency \<Rightarrow> storage_waste \<Rightarrow> optimization" where
  "replication_optimization efficiency_analysis waste_analysis =
     \<lparr>opt_type = ''replication_optimization'', priority = ''medium'', impact = ''high'',
      affected_files = over_replicated_count efficiency_analysis,
      potential_savings_gb = replication_waste_gb waste_analysis,
      description = ''Optimize replication factors to reduce storage waste''\<rparr>"

text \<open>
  The list \<open>optimizations\<close> as the four \<open>if\<close> statements build it, before the sort.
\<close>

definition build_optimizations :: "cold_entry list \<Rightarrow> file_efficiency \<Rightarrow> orphaned_entry list
    \<Rightarrow> storage_waste \<Rightarrow> optimization list" where
  "build_optimizations cold_data efficiency_analysis orphaned_files waste_analysis =
     (let optimizations = [];
          optimizations = (if cold_data \<noteq> []
            then optimizations @ [cold_data_migration cold_data] else optimizations);
          optimizations = (if small_files_count efficiency_analysis > 0
            then optimizations @ [small_file_consolidation efficiency_analysis]
            else optimizations);
          optimizations = (if orphaned_files \<noteq> []
            then optimizations @ [orphaned_file_cleanup orphaned_files] else optimizations);
          optimizations = (if over_replicated_count efficiency_analysis > 0
            then optimizations @ [replication_optimization efficiency_analysis waste_analysis]
            else optimizations)
      in optimizations)"

text \<open>
  \<open>generate_optimization_priority\<close>. The two classifiers that read the clock are called
  one after the other, so the function sees two readings: \<open>time_cold\<close> inside
  \<open>identify_cold_data\<close> (called with its default threshold of 180 days) and
  \<open>time_orphaned\<close> inside \<open>identify_orphaned_temp_files\<close>.
\<close>

definition generate_optimization_priority :: "real \<Rightarrow> real \<Rightarrow> file_info list
    \<Rightarrow> error + optimization list" where
  "generate_optimization_priority time_cold time_orphaned file_metadata =
     (case identify_cold_data time_cold file_metadata 180 of
        Inl e \<Rightarrow> Inl e
      | Inr cold_data \<Rightarrow>
          (let efficiency_analysis = analyze_file_efficiency file_metadata;
               orphaned_files = identify_orphaned_temp_files time_orphaned file_metadata;
               duplicates = detect_duplicate_candidates file_metadata;
               waste_analysis = calculate_storage_waste file_metadata
           in sort_by_key_reverse priority_key
                (build_optimizations cold_data efficiency_analysis orphaned_files
                   waste_analysis)))"

section \<open>Cost calculator\<close>

record StorageCosts =
  standard_storage_cost_per_gb :: real
  cold_storage_cost_per_gb :: real
  archive_storage_cost_per_gb :: real
  replication_multiplier :: real
  metadata_cost_per_file :: real
  network_cost_per_gb :: real

text \<open>The defaults of the dataclass.\<close>

definition StorageCosts_default :: StorageCosts where
  "StorageCosts_default =
     \<lparr>standard_storage_cost_per_gb = 0.04, cold_storage_cost_per_gb = 0.01,
      archive_storage_cost_per_gb = 0.005, replication_multiplier = 1.0,
      metadata_cost_per_file = 0.0001, network_cost_per_gb = 0.01\<rparr>"

record OptimizationSavings =
  category :: string
  current_cost :: real
  optimized_cost :: real
  savings :: real
  savings_percent :: real
  affected_data_gb :: real
  implementation_cost :: real
  annual_savings :: real

text \<open>
  The part of the scan that the calculator reads from \<open>efficiency_analysis\<close>, and the
  scan results themselves. Every key is read with \<open>.get\<close>, so every field is optional.
  Identifiers, messages, timestamps and cluster metrics of the scan are not modelled.
\<close>

record scan_efficiency =
  inefficient_replication_s :: "over_replicated_entry list option"

record scan_results =
  status :: "string option"
  total_files :: "int option"
  total_size_gb :: "real option"
  cold_data :: "cold_entry list option"
  duplicate_candidates :: "duplicate_entry list option"
  small_files :: "small_entry list option"
  empty_files :: "efficiency_entry list option"
  orphaned_files :: "orphaned_entry list option"
  over_replicated_files :: "over_replicated_entry list option"
  efficiency_analysis :: "scan_efficiency option"
  directory_analysis_s :: "directory_analysis option"
  waste_analysis_s :: "storage_waste option"
  optimization_priorities :: "optimization list option"

record current_costs =
  storage_cost :: real
  metadata_cost :: real
  small_file_overhead :: real
  network_cost :: real
  total_monthly_cost :: real
  total_annual_cost :: real
  cost_per_gb :: real

definition calculate_current_costs :: "StorageCosts \<Rightarrow> scan_results \<Rightarrow> current_costs" where
  "calculate_current_costs costs scan =
     (let total_size_gb = dict_get (total_size_gb scan) 0;
          total_files = dict_get (total_files scan) 0;
          replication_factor = 3;
          storage_cost = total_size_gb * standard_storage_cost_per_gb costs * replication_factor;
          metadata_cost = real_of_int total_files * metadata_cost_per_file costs;
          small_files = dict_get (small_files scan) [];
          small_file_overhead = real_of_int (len small_files) * 0.001;
          network_cost = total_size_gb * 0.005;
          total_cost = storage_cost + metadata_cost + small_file_overhead + network_cost
      in \<lparr>storage_cost = storage_cost,
          metadata_cost = metadata_cost,
          small_file_overhead = small_file_overhead,
          network_cost = network_cost,
          total_monthly_cost = total_cost,
          total_annual_cost = total_cost * 12,
          cost_per_gb = (if total_size_gb > 0 then total_cost / total_size_gb else 0)\<rparr>)"

text \<open>\<open>sum(file.get("size", 0) for file in files)\<close>.\<close>

definition sum_sizes :: "'a file_info_scheme list \<Rightarrow> int" where
  "sum_sizes files = sum_list (map (\<lambda>file. dict_get (size_bytes file) 0) files)"

definition calculate_cold_data_savings :: "StorageCosts \<Rightarrow> scan_results \<Rightarrow> OptimizationSavings" where
  "calculate_cold_data_savings costs scan =
     (let cold_data = dict_get (cold_data scan) [];
          cold_data_size_gb = real_of_int (sum_sizes cold_data) / (1024 ^ 3);
          current_cost = cold_data_size_gb * standard_storage_cost_per_gb costs * 3;
          optimized_cost = cold_data_size_gb * cold_storage_cost_per_gb costs * 1.5;
          implementation_cost = cold_data_size_gb * network_cost_per_gb costs;
          savings = current_cost - optimized_cost;
          savings_percent = (if current_cost > 0 then (savings / current_cost) * 100 else 0)
      in \<lparr>category = ''cold_data'', current_cost = current_cost,
          optimized_cost = optimized_cost, savings = savings,
          savings_percent = savings_percent, affected_data_gb = cold_data_size_gb,
          implementation_cost = implementation_cost, annual_savings = savings * 12\<rparr>)"

definition calculate_small_file_savings :: "StorageCosts \<Rightarrow> scan_results \<Rightarrow> OptimizationSavings" where
  "calculate_small_file_savings costs scan =
     (let small_files = dict_get (small_files scan) [];
          small_file_count = real_of_int (len small_files);
          small_file_size_gb = real_of_int (sum_sizes small_files) / (1024 ^ 3);
          current_metadata_cost = small_file_count * metadata_cost_per_file costs * 100;
          current_storage_cost = small_file_size_gb * standard_storage_cost_per_gb costs * 3;
          current_cost = current_metadata_cost + current_storage_cost;
          optimized_file_count = small_file_count * 0.1;
          optimized_metadata_cost = optimized_file_count * metadata_cost_per_file costs * 100;
          optimized_storage_cost = small_file_size_gb * standard_storage_cost_per_gb costs * 3;
          optimized_cost = optimized_metadata_cost + optimized_storage_cost;
          implementation_cost = small_file_count * 0.0001;
          savings = current_cost - optimized_cost;
          savings_percent = (if current_cost > 0 then (savings / current_cost) * 100 else 0)
      in \<lparr>category = ''small_files'', current_cost = current_cost,
          optimized_cost = optimized_cost, savings = savings,
          savings_percent = savings_percent, affected_data_gb = small_file_size_gb,
          implementation_cost = implementation_cost, annual_savings = savings * 12\<rparr>)"

text \<open>
  The loop of \<open>_calculate_replication_savings\<close> over \<open>(total_savings, total_size_gb)\<close>,
  the second written \<open>total_gb\<close> in the loop. The entries it reads carry
  \<open>current_replication\<close> and \<open>suggested_replication\<close>.
\<close>

fun replication_savings_loop :: "StorageCosts \<Rightarrow> over_replicated_entry list \<Rightarrow> real \<times> real
    \<Rightarrow> real \<times> real" where
  "replication_savings_loop costs [] acc = acc"
| "replication_savings_loop costs (file_info # rest) (total_savings, total_gb) =
     (let size_gb = real_of_int (dict_get (size_bytes file_info) 0) / (1024 ^ 3);
          excess_replicas = current_replication file_info - suggested_replication file_info;
          file_savings = size_gb * standard_storage_cost_per_gb costs * real_of_int excess_replicas
      in replication_savings_loop costs rest (total_savings + file_savings, total_gb + size_gb))"

definition calculate_replication_savings :: "StorageCosts \<Rightarrow> scan_results \<Rightarrow> OptimizationSavings" where
  "calculate_replication_savings costs scan =
     (let efficiency_analysis =
            dict_get (efficiency_analysis scan) \<lparr>inefficient_replication_s = None\<rparr>;
          over_replicated = dict_get (inefficient_replication_s efficiency_analysis) [];
          (total_savings, total_size_gb) = replication_savings_loop costs over_replicated (0, 0);
          current_cost = total_size_gb * standard_storage_cost_per_gb costs * 4;
          optimized_cost = total_size_gb * standard_storage_cost_per_gb costs * 3;
          savings = current_cost - optimized_cost;
          savings_percent = (if current_cost > 0 then (savings / current_cost) * 100 else 0)
      in \<lparr>category = ''replication'', current_cost = current_cost,
          optimized_cost = optimized_cost, savings = savings,
          savings_percent = savings_percent, affected_data_gb = total_size_gb,
          implementation_cost = 0, annual_savings = savings * 12\<rparr>)"

definition calculate_cleanup_savings :: "StorageCosts \<Rightarrow> scan_results \<Rightarrow> OptimizationSavings" where
  "calculate_cleanup_savings costs scan =
     (let orphaned_files = dict_get (orphaned_files scan) [];
          orphaned_size_gb = real_of_int (sum_sizes orphaned_files) / (1024 ^ 3);
          current_storage_cost = orphaned_size_gb * standard_storage_cost_per_gb costs * 3;
          current_metadata_cost = real_of_int (len orphaned_files) * metadata_cost_per_file costs;
          current_cost = current_storage_cost + current_metadata_cost;
          optimized_cost = 0;
          savings = current_cost - optimized_cost;
          savings_percent = 100.0
      in \<lparr>category = ''cleanup'', current_cost = current_cost,
          optimized_cost = optimized_cost, savings = savings,
          savings_percent = savings_percent, affected_data_gb = orphaned_size_gb,
          implementation_cost = 0, annual_savings = savings * 12\<rparr>)"

definition calculate_compression_savings :: "StorageCosts \<Rightarrow> scan_results \<Rightarrow> OptimizationSavings" where
  "calculate_compression_savings costs scan =
     (let total_size_gb = dict_get (total_size_gb scan) 0;
          compression_ratio = 0.3;
          compressed_size_gb = total_size_gb * (1 - compression_ratio);
          current_cost = total_size_gb * standard_storage_cost_per_gb costs * 3;
          optimized_cost = compressed_size_gb * standard_storage_cost_per_gb costs * 3;
          implementation_cost = total_size_gb * 0.002;
          savings = current_cost - optimized_cost;
          savings_percent = (if current_cost > 0 then (savings / current_cost) * 100 else 0)
      in \<lparr>category = ''compression'', current_cost = current_cost,
          optimized_cost = optimized_cost, savings = savings,
          savings_percent = savings_percent, affected_data_gb = total_size_gb,
          implementation_cost = implementation_cost, annual_savings = savings * 12\<rparr>)"

text \<open>
  \<open>calculate_optimization_savings\<close>: one saving per optimization of the plan, by its
  \<open>category\<close> (absent: \<open>unknown\<close>); an unknown category is skipped.
\<close>

definition savings_for :: "StorageCosts \<Rightarrow> scan_results \<Rightarrow> string option
    \<Rightarrow> OptimizationSavings option" where
  "savings_for costs scan optimization =
     (let c = dict_get optimization ''unknown''
      in if c = ''cold_data'' then Some (calculate_cold_data_savings costs scan)
         else if c = ''small_files'' then Some (calculate_small_file_savings costs scan)
         else if c = ''replication'' then Some (calculate_replication_savings costs scan)
         else if c = ''cleanup'' then Some (calculate_cleanup_savings costs scan)
         else if c = ''compression'' then Some (calculate_compression_savings costs scan)
         else None)"

definition calculate_optimization_savings :: "StorageCosts \<Rightarrow> scan_results \<Rightarrow> string option list
    \<Rightarrow> OptimizationSavings list" where
  "calculate_optimization_savings costs scan optimizations =
     List.map_filter (savings_for costs scan) optimizations"

section \<open>Storage growth\<close>

record projection =
  year :: int
  projected_size_gb :: real
  projected_monthly_cost :: real
  projected_annual_cost :: real

record growth_estimate =
  current_size_gb :: real
  growth_rate_percent :: real
  projections :: "projection list"
  three_year_total_cost :: real

text \<open>
  The loop \<open>for year in range(1, 4)\<close> of \<open>estimate_storage_growth\<close>; \<open>done\<close> is the list
  \<open>projections\<close> built so far.
\<close>

fun projection_loop :: "real \<Rightarrow> real \<Rightarrow> real \<Rightarrow> nat list \<Rightarrow> projection list
    \<Rightarrow> error + projection list" where
  "projection_loop size_gb rate monthly [] done = Inr done"
| "projection_loop size_gb rate monthly (y # years) done =
     (let projected_size = size_gb * ((1 + rate / 100) ^ y)
      in case truediv projected_size size_gb of
           Inl e \<Rightarrow> Inl e
         | Inr ratio \<Rightarrow>
             (let projected_monthly = ratio * monthly
              in projection_loop size_gb rate monthly years
                   (done @ [\<lparr>year = int y, projected_size_gb = projected_size,
                      projected_monthly_cost = projected_monthly,
                      projected_annual_cost = projected_monthly * 12\<rparr>])))"

definition estimate_storage_growth :: "StorageCosts \<Rightarrow> scan_results \<Rightarrow> real
    \<Rightarrow> error + growth_estimate" where
  "estimate_storage_growth costs scan rate =
     (let size_gb = dict_get (total_size_gb scan) 0;
          current_costs = calculate_current_costs costs scan
      in case projection_loop size_gb rate (total_monthly_cost current_costs) [1, 2, 3] [] of
           Inl e \<Rightarrow> Inl e
         | Inr ps \<Rightarrow>
             Inr \<lparr>current_size_gb = size_gb,
                  growth_rate_percent = rate,
                  projections = ps,
                  three_year_total_cost = sum_list (map projected_annual_cost ps)\<rparr>)"

section \<open>The scan\<close>

text \<open>
  The result of \<open>execute_scan\<close> once the files of the requested paths are gathered in
  \<open>all_files\<close> (reading them is the work of the file-system client). The four clock
  readings are those of the four classifier calls that read the clock, in call order.
\<close>

definition scan_no_files :: scan_results where
  "scan_no_files =
     \<lparr>status = Some ''completed'', total_files = Some 0, total_size_gb = Some 0,
      cold_data = Some [], duplicate_candidates = Some [], small_files = Some [],
      empty_files = None, orphaned_files = Some [], over_replicated_files = None,
      efficiency_analysis = None, directory_analysis_s = None, waste_analysis_s = None,
      optimization_priorities = None\<rparr>"

definition execute_scan :: "real \<Rightarrow> real \<Rightarrow> real \<Rightarrow> real \<Rightarrow> file_info list \<Rightarrow> error + scan_results" where
  "execute_scan t1 t2 t3 t4 all_files =
     (if all_files = [] then Inr scan_no_files
      else case identify_cold_data t1 all_files 180 of
        Inl e \<Rightarrow> Inl e
      | Inr cold \<Rightarrow>
         (let duplicates = detect_duplicate_candidates all_files;
              efficiency = analyze_file_efficiency all_files;
              orphaned = identify_orphaned_temp_files t2 all_files;
              dir_analysis = analyze_directory_structure all_files;
              waste_analysis = calculate_storage_waste all_files
          in case generate_optimization_priority t3 t4 all_files of
               Inl e \<Rightarrow> Inl e
             | Inr priorities \<Rightarrow>
                (let total = sum_sizes all_files;
                     size_gb = real_of_int total / (1024 ^ 3)
                 in Inr \<lparr>status = Some ''completed'',
                      total_files = Some (len all_files),
                      total_size_gb = Some size_gb,
                      cold_data = Some cold,
                      duplicate_candidates = Some duplicates,
                      small_files = Some (small_files_e efficiency),
                      empty_files = Some (empty_files_e efficiency),
                      orphaned_files = Some orphaned,
                      over_replicated_files = Some (inefficient_replication efficiency),
                      efficiency_analysis = Some \<lparr>inefficient_replication_s = None\<rparr>,
                      directory_analysis_s = Some dir_analysis,
                      waste_analysis_s = Some waste_analysis,
                      optimization_priorities = Some priorities\<rparr>)))"

section \<open>Requesting an optimization plan\<close>

text \<open>
  The module-level dictionaries: the scans by id, the optimization results by id and the
  plans kept for script generation. A stored result is either the full result of the
  analysis or the error record written by the exception handler.
\<close>

record 'r optimization_results =
  optimization_id :: string
  scan_id :: string
  status_o :: string
  error_o :: "string option"
  details :: "'r option"

record ('r, 'p) storage =
  scan_results_storage :: "string \<rightharpoonup> scan_results"
  optimization_results_storage :: "string \<rightharpoonup> 'r optimization_results"
  script_storage :: "string \<rightharpoonup> 'p"

text \<open>\<open>str(e)\<close> for the exceptions of the model.\<close>

definition str_of_error :: "error \<Rightarrow> string" where
  "str_of_error e = (case e of
       ZeroDivisionError \<Rightarrow> ''float division by zero''
     | ValueError msg \<Rightarrow> msg
     | KeyError k \<Rightarrow> [CHR 0x27] @ k @ [CHR 0x27])"

definition get_scan_results :: "('r, 'p) storage \<Rightarrow> string \<Rightarrow> error + scan_results" where
  "get_scan_results st sid =
     (case scan_results_storage st sid of
        None \<Rightarrow> Inl (ValueError (''Scan results not found for ID: '' @ sid))
      | Some results \<Rightarrow> Inr results)"

text \<open>
  \<open>generate_recommendations\<close>. The identifier drawn from \<open>uuid4\<close> is the argument \<open>oid\<close>.
  \<open>analysis\<close> stands for the body of the \<open>try\<close> after the status check: the current costs,
  the call of the language model, the plan, the savings and the report; it returns the
  details of the result and the plan, or raises. The handler stores an error record under
  the identifier and raises the exception again.
\<close>

definition generate_recommendations ::
    "(scan_results \<Rightarrow> error + ('r \<times> 'p)) \<Rightarrow> string \<Rightarrow> string \<Rightarrow> ('r, 'p) storage
     \<Rightarrow> (error + 'r optimization_results) \<times> ('r, 'p) storage" where
  "generate_recommendations analysis oid sid st =
     (let attempt =
        (case get_scan_results st sid of
           Inl e \<Rightarrow> Inl e
         | Inr scan \<Rightarrow>
             if status scan \<noteq> Some ''completed''
             then Inl (ValueError (''Scan '' @ sid @ '' is not completed or failed''))
             else analysis scan)
      in case attempt of
           Inr (result_details, optimization_plan) \<Rightarrow>
             (let optimization_results =
                    \<lparr>optimization_id = oid, scan_id = sid, status_o = ''completed'',
                     error_o = None, details = Some result_details\<rparr>
              in (Inr optimization_results,
                  st\<lparr>optimization_results_storage :=
                       (optimization_results_storage st)(oid \<mapsto> optimization_results),
                     script_storage := (script_storage st)(oid \<mapsto> optimization_plan)\<rparr>))
         | Inl e \<Rightarrow>
             (let error_result =
                    \<lparr>optimization_id = oid, scan_id = sid, status_o = ''failed'',
                     error_o = Some (str_of_error e), details = None\<rparr>
              in (Inl e,
                  st\<lparr>optimization_results_storage :=
                       (optimization_results_storage st)(oid \<mapsto> error_result)\<rparr>)))"

definition tmp_file :: file_info where
  "tmp_file = \<lparr>path = Some ''/tmp/old.tmp'', size_bytes = Some 1073741824, replication = Some 6,
     access_time = Some 0, modification_time = Some 0, block_size = None,
     owner = None, group = None\<rparr>"

text \<open>The classifiers' view of \<open>tmp_file\<close> one hundred days after its last modification.\<close>

definition scan_tmp_file :: scan_results where
  "scan_tmp_file = scan_no_files
     \<lparr>total_files := Some 1, total_size_gb := Some 1,
      orphaned_files := Some (identify_orphaned_temp_files 8640000000 [tmp_file])\<rparr>"

text \<open>A store holding one failed scan under the id \<open>s1\<close>, and nothing else.\<close>

definition failed_scan :: scan_results where
  "failed_scan = scan_no_files\<lparr>status := Some ''failed''\<rparr>"

definition store_failed_scan :: "(unit, unit) storage" where
  "store_failed_scan = \<lparr>scan_results_storage = [''s1'' \<mapsto> failed_scan],
     optimization_results_storage = Map.empty, script_storage = Map.empty\<rparr>"

text \<open>
  The size classes of the specification: empty (\<open>size = 0\<close>), small
  (\<open>0 < size < 64MiB\<close>) and over-replicated (\<open>replication > 3\<close>), with the defaults the
  analyser substitutes for absent keys.
\<close>

definition spec_is_empty :: "'a file_info_scheme \<Rightarrow> bool" where
  "spec_is_empty f \<longleftrightarrow> dict_get (size_bytes f) 0 = 0"

definition spec_is_small :: "'a file_info_scheme \<Rightarrow> bool" where
  "spec_is_small f \<longleftrightarrow> 0 < dict_get (size_bytes f) 0 \<and> dict_get (size_bytes f) 0 < 64 * 1024 * 1024"

definition spec_is_over_replicated :: "'a file_info_scheme \<Rightarrow> bool" where
  "spec_is_over_replicated f \<longleftrightarrow> dict_get (replication f) 1 > 3"

definition empty_file :: file_info where
  "empty_file = \<lparr>path = Some ''/data/_SUCCESS'', size_bytes = Some 0, replication = Some 3,
     access_time = Some 0, modification_time = Some 0, block_size = Some 134217728,
     owner = None, group = None\<rparr>"

text \<open>
  The file of scenario A: 200 MiB, replication 3, last accessed (and modified) at \<open>t\<close>.
\<close>

definition scenario_a_file :: "int \<Rightarrow> file_info" where
  "scenario_a_file t = \<lparr>path = Some ''/data/a.parquet'', size_bytes = Some (200 * 1024 * 1024),
     replication = Some 3, access_time = Some t, modification_time = Some t,
     block_size = None, owner = None, group = None\<rparr>"

text \<open>
  The vocabulary of the specification for the priority list: the tags of an entry, the
  ranks \<open>high = 3\<close>, \<open>medium = 2\<close>, \<open>low = 1\<close>, the rank pair an entry is ordered by, and the
  four entries in their construction order, each present when its category is not empty.
\<close>

definition opt_tags :: "optimization \<Rightarrow> string \<times> string \<times> string" where
  "opt_tags x = (opt_type x, priority x, impact x)"

definition spec_rank :: "string \<Rightarrow> int" where
  "spec_rank tag = (if tag = ''high'' then 3 else if tag = ''medium'' then 2
                    else if tag = ''low'' then 1 else 0)"

definition spec_key :: "optimization \<Rightarrow> int \<times> int" where
  "spec_key x = (spec_rank (priority x), spec_rank (impact x))"

definition tags_key :: "string \<times> string \<times> string \<Rightarrow> int \<times> int" where
  "tags_key tags = (case tags of (ty, p, i) \<Rightarrow> (spec_rank p, spec_rank i))"

definition spec_candidates :: "bool \<Rightarrow> bool \<Rightarrow> bool \<Rightarrow> bool \<Rightarrow> (string \<times> string \<times> string) list" where
  "spec_candidates has_cold has_small has_orphaned has_over_replicated =
     (if has_cold then [(''cold_data_migration'', ''high'', ''high'')] else [])
     @ (if has_small then [(''small_file_consolidation'', ''high'', ''medium'')] else [])
     @ (if has_orphaned then [(''orphaned_file_cleanup'', ''medium'', ''medium'')] else [])
     @ (if has_over_replicated then [(''replication_optimization'', ''medium'', ''high'')]
        else [])"

definition spec_ranked :: "bool \<Rightarrow> bool \<Rightarrow> bool \<Rightarrow> bool \<Rightarrow> (string \<times> string \<times> string) list" where
  "spec_ranked has_cold has_small has_orphaned has_over_replicated =
     (if has_cold then [(''cold_data_migration'', ''high'', ''high'')] else [])
     @ (if has_small then [(''small_file_consolidation'', ''high'', ''medium'')] else [])
     @ (if has_over_replicated then [(''replication_optimization'', ''medium'', ''high'')]
        else [])
     @ (if has_orphaned then [(''orphaned_file_cleanup'', ''medium'', ''medium'')] else [])"

section \<open>Calls of the classifiers\<close>

text \<open>
  The six classifier methods of the analyser and what each returns.
  \<open>run_classifier c clock file_metadata\<close> is a call of the method \<open>c\<close> on
  \<open>file_metadata\<close> while the wall clock reads \<open>clock\<close>: the reading reaches the two
  methods whose bodies call \<open>datetime.now()\<close> and no other. \<open>has_entries\<close> holds of an
  output that is a list with at least one entry.
\<close>

datatype classifier =
    Identify_cold_data int
  | Detect_duplicate_candidates
  | Analyze_file_efficiency
  | Identify_orphaned_temp_files
  | Analyze_directory_structure
  | Calculate_storage_waste

datatype classifier_output =
    Cold_data "error + cold_entry list"
  | Duplicate_candidates "duplicate_entry list"
  | File_efficiency file_efficiency
  | Orphaned_temp_files "orphaned_entry list"
  | Directory_structure directory_analysis
  | Storage_waste storage_waste

fun run_classifier :: "classifier \<Rightarrow> real \<Rightarrow> file_info list \<Rightarrow> classifier_output" where
  "run_classifier (Identify_cold_data cold_threshold_days) clock file_metadata =
     Cold_data (identify_cold_data clock file_metadata cold_threshold_days)"
| "run_classifier Detect_duplicate_candidates clock file_metadata =
     Duplicate_candidates (detect_duplicate_candidates file_metadata)"
| "run_classifier Analyze_file_efficiency clock file_metadata =
     File_efficiency (analyze_file_efficiency file_metadata)"
| "run_classifier Identify_orphaned_temp_files clock file_metadata =
     Orphaned_temp_files (identify_orphaned_temp_files clock file_metadata)"
| "run_classifier Analyze_directory_structure clock file_metadata =
     Directory_structure (analyze_directory_structure file_metadata)"
| "run_classifier Calculate_storage_waste clock file_metadata =
     Storage_waste (calculate_storage_waste file_metadata)"

fun reads_clock :: "classifier \<Rightarrow> bool" where
  "reads_clock (Identify_cold_data cold_threshold_days) = True"
| "reads_clock Identify_orphaned_temp_files = True"
| "reads_clock Detect_duplicate_candidates = False"
| "reads_clock Analyze_file_efficiency = False"
| "reads_clock Analyze_directory_structure = False"
| "reads_clock Calculate_storage_waste = False"

fun has_entries :: "classifier_output \<Rightarrow> bool" where
  "has_entries (Cold_data (Inr entries)) = (entries \<noteq> [])"
| "has_entries (Cold_data (Inl e)) = False"
| "has_entries (Duplicate_candidates entries) = (entries \<noteq> [])"
| "has_entries (Orphaned_temp_files entries) = (entries \<noteq> [])"
| "has_entries (File_efficiency d) = False"
| "has_entries (Directory_structure d) = False"
| "has_entries (Storage_waste d) = False"

section \<open>Properties of the reverse sort\<close>

lemma mset_sort_reverse: "mset (sort_reverse k xs) = mset xs"
  by (simp add: sort_reverse_def)

lemma set_sort_reverse: "set (sort_reverse k xs) = set xs"
  by (simp add: sort_reverse_def)

lemma sorted_sort_reverse: "sorted (rev (map k (sort_reverse k xs)))"
  by (simp add: sort_reverse_def rev_map)

lemma sort_reverse_stable:
  "filter (\<lambda>y. k y = c) (sort_reverse k xs) = filter (\<lambda>y. k y = c) xs"
  by (simp add: sort_reverse_def rev_filter [symmetric] sort_key_stable)

lemma sort_reverse_Nil: "sort_reverse k [] = []"
  by (simp add: sort_reverse_def)

lemma sort_reverse_single: "sort_reverse k [x] = [x]"
  by (simp add: sort_reverse_def)

section \<open>Properties of cold-data identification\<close>

lemma cold_entry_of_pos:
  "d \<noteq> 0 \<Longrightarrow> cold_entry_of now d f =
     Inr (if spec_is_cold now d f then Some (cold_tag now d f) else None)"
  by (simp add: cold_entry_of_def spec_is_cold_def cold_tag_def truediv_def Let_def
      spec_days_since_access_def spec_cold_score_def ms_per_day_def)

lemma cold_loop_acc:
  "d \<noteq> 0 \<Longrightarrow> cold_loop now d xs acc =
     Inr (acc @ map (cold_tag now d) (filter (spec_is_cold now d) xs))"
  by (induction xs arbitrary: acc) (simp_all add: cold_entry_of_pos)

lemma identify_cold_data_pos:
  "d \<noteq> 0 \<Longrightarrow> identify_cold_data now xs d =
     Inr (sort_reverse cold_score (map (cold_tag now d) (filter (spec_is_cold now d) xs)))"
  by (simp add: identify_cold_data_def cold_loop_acc)

lemma truncate_cold_tag: "file_info.truncate (cold_tag now d f) = f"
  by (simp add: cold_tag_def file_info.defs classified.defs cold_entry.defs)

lemma cold_tag_fields:
  "classification (cold_tag now d f) = ''cold''"
  "days_since_access (cold_tag now d f) = spec_days_since_access now f"
  "cold_score (cold_tag now d f) = spec_cold_score now d f"
  "access_time (cold_tag now d f) = access_time f"
  by (simp_all add: cold_tag_def file_info.defs classified.defs cold_entry.defs)

lemma spec_cold_tag:
  "spec_days_since_access now (cold_tag now d f) = spec_days_since_access now f"
  "spec_cold_score now d (cold_tag now d f) = spec_cold_score now d f"
  "spec_is_cold now d (cold_tag now d f) = spec_is_cold now d f"
  by (simp_all add: spec_days_since_access_def spec_cold_score_def spec_is_cold_def
      cold_tag_fields)

text \<open>
  Positive thresholds: for every file collection and every positive \<open>threshold_days\<close>,
  \<open>identify_cold_data\<close> returns, without raising, exactly the records with
  \<open>access_time < now_ms - threshold_days * ms_per_day\<close> (the clock read once per call),
  each tagged with \<open>classification = cold\<close>, its \<open>days_since_access\<close> and
  \<open>cold_score = min (days_since_access / threshold_days) 1\<close>; the result is sorted by
  \<open>cold_score\<close> descending and entries of equal score keep their input order.
\<close>

theorem identify_cold_data_correct:
  assumes "0 < threshold_days"
  shows "\<exists>ys. identify_cold_data now_ms files threshold_days = Inr ys
     \<and> mset (map file_info.truncate ys) = mset (filter (spec_is_cold now_ms threshold_days) files)
     \<and> (\<forall>y \<in> set ys. spec_is_cold now_ms threshold_days y \<and> classification y = ''cold''
           \<and> days_since_access y = spec_days_since_access now_ms y
           \<and> cold_score y = spec_cold_score now_ms threshold_days y)
     \<and> sorted (rev (map cold_score ys))
     \<and> (\<forall>c. map file_info.truncate (filter (\<lambda>y. cold_score y = c) ys) =
            filter (\<lambda>f. spec_is_cold now_ms threshold_days f
                        \<and> spec_cold_score now_ms threshold_days f = c) files)"
proof -
  let ?tag = "cold_tag now_ms threshold_days"
  let ?cold = "spec_is_cold now_ms threshold_days"
  let ?tagged = "map ?tag (filter ?cold files)"
  let ?ys = "sort_reverse cold_score ?tagged"
  from assms have run: "identify_cold_data now_ms files threshold_days = Inr ?ys"
    by (simp add: identify_cold_data_pos)
  have members: "mset (map file_info.truncate ?ys) = mset (filter ?cold files)"
  proof -
    have "mset ?ys = mset ?tagged" by (rule mset_sort_reverse)
    then have "mset (map file_info.truncate ?ys) = mset (map file_info.truncate ?tagged)"
      by (metis mset_map)
    also have "map file_info.truncate ?tagged = filter ?cold files"
      by (simp add: truncate_cold_tag o_def)
    finally show ?thesis .
  qed
  have tags: "\<forall>y \<in> set ?ys. ?cold y \<and> classification y = ''cold''
           \<and> days_since_access y = spec_days_since_access now_ms y
           \<and> cold_score y = spec_cold_score now_ms threshold_days y"
    unfolding set_sort_reverse by (auto simp: cold_tag_fields spec_cold_tag)
  have ties: "map file_info.truncate (filter (\<lambda>y. cold_score y = c) ?ys) =
            filter (\<lambda>f. ?cold f \<and> spec_cold_score now_ms threshold_days f = c) files" for c
  proof -
    have "filter (\<lambda>y. cold_score y = c) ?ys = filter (\<lambda>y. cold_score y = c) ?tagged"
      by (rule sort_reverse_stable)
    also have "\<dots> = map ?tag
        (filter (\<lambda>f. spec_cold_score now_ms threshold_days f = c) (filter ?cold files))"
      by (simp add: filter_map o_def cold_tag_fields)
    finally show ?thesis
      by (simp add: truncate_cold_tag o_def conj_commute)
  qed
  from run members tags sorted_sort_reverse [of cold_score ?tagged] ties show ?thesis
    by blast
qed

theorem identify_cold_data_correct_witness:
  "(0::int) < 180 \<and>
   (\<exists>ys. identify_cold_data 17280000000 [never_accessed, accessed_at 17280000000] 180 = Inr ys
      \<and> mset (map file_info.truncate ys) = {#never_accessed#}
      \<and> sorted (rev (map cold_score ys)))"
proof -
  have pos: "(0::int) < 180" by simp
  have sel: "filter (spec_is_cold 17280000000 180) [never_accessed, accessed_at 17280000000]
      = [never_accessed]"
    by (simp add: spec_is_cold_def never_accessed_def accessed_at_def dict_get_def ms_per_day_def)
  from identify_cold_data_correct [OF pos, of 17280000000 "[never_accessed, accessed_at 17280000000]"]
  obtain ys where
    "identify_cold_data 17280000000 [never_accessed, accessed_at 17280000000] 180 = Inr ys"
    and "mset (map file_info.truncate ys) =
         mset (filter (spec_is_cold 17280000000 180) [never_accessed, accessed_at 17280000000])"
    and "sorted (rev (map cold_score ys))"
    by blast
  with sel pos show ?thesis by auto
qed

text \<open>
  For a positive threshold every cold record has \<open>days_since_access > threshold_days\<close>, so
  its score is capped at 1: all entries tie and the result is the cold records in input
  order.
\<close>

lemma spec_cold_score_of_cold:
  assumes "0 < d" and "spec_is_cold now d f"
  shows "spec_cold_score now d f = 1"
proof -
  have msd: "0 < ms_per_day" by (simp add: ms_per_day_def)
  from assms(1) have dpos: "0 < real_of_int d" by simp
  from assms(2) have "real_of_int d * ms_per_day < now - real_of_int (dict_get (access_time f) 0)"
    by (simp add: spec_is_cold_def)
  with msd have "real_of_int d < spec_days_since_access now f"
    by (simp add: spec_days_since_access_def pos_less_divide_eq)
  with dpos have "1 < spec_days_since_access now f / real_of_int d"
    by (simp add: pos_less_divide_eq)
  then show ?thesis by (simp add: spec_cold_score_def)
qed

lemma sort_reverse_all_equal:
  assumes "\<forall>x \<in> set xs. k x = c"
  shows "sort_reverse k xs = xs"
proof -
  from assms have "\<forall>x \<in> set (sort_reverse k xs). k x = c"
    by (simp add: set_sort_reverse)
  then have "filter (\<lambda>y. k y = c) (sort_reverse k xs) = sort_reverse k xs"
    by (simp add: filter_id_conv)
  moreover from assms have "filter (\<lambda>y. k y = c) xs = xs"
    by (simp add: filter_id_conv)
  ultimately show ?thesis
    using sort_reverse_stable [of k c xs] by simp
qed

lemma identify_cold_data_input_order:
  assumes "0 < d"
  shows "identify_cold_data now files d =
           Inr (map (cold_tag now d) (filter (spec_is_cold now d) files))"
proof -
  from assms have "\<forall>y \<in> set (map (cold_tag now d) (filter (spec_is_cold now d) files)).
      cold_score y = 1"
    by (auto simp: cold_tag_fields spec_cold_score_of_cold)
  then have "sort_reverse cold_score (map (cold_tag now d) (filter (spec_is_cold now d) files))
      = map (cold_tag now d) (filter (spec_is_cold now d) files)"
    by (rule sort_reverse_all_equal)
  with assms show ?thesis by (simp add: identify_cold_data_pos)
qed

text \<open>
  The threshold 0: every file accessed before the clock reading is cold, and the score
  divides by the threshold. The call raises as soon as one such file is met, and returns
  the empty list otherwise.
\<close>

lemma cold_loop_zero:
  "cold_loop now 0 xs acc =
     (if \<exists>f \<in> set xs. real_of_int (dict_get (access_time f) 0) < now
      then Inl ZeroDivisionError else Inr acc)"
  by (induction xs arbitrary: acc) (simp_all add: cold_entry_of_def truediv_def Let_def)

lemma identify_cold_data_zero:
  "identify_cold_data now files 0 =
     (if \<exists>f \<in> set files. real_of_int (dict_get (access_time f) 0) < now
      then Inl ZeroDivisionError else Inr [])"
  by (simp add: identify_cold_data_def cold_loop_zero sort_reverse_Nil)

text \<open>
  C3: cold-data identification with \<open>threshold_days = 0\<close>, a non-negative threshold, on
  one file last accessed at the epoch, while the clock reads 1700000000000 ms. The claim
  asks for the records accessed before the cutoff, tagged and sorted; the function
  divides \<open>days_since_access\<close> by the threshold and raises.
\<close>

theorem identify_cold_data_zero_threshold_raises:
  "identify_cold_data 1700000000000 [never_accessed] 0 = Inl ZeroDivisionError"
  by (simp add: identify_cold_data_zero never_accessed_def dict_get_def)

lemma spec_cold_score_unknown:
  assumes "0 < d" "real_of_int d * ms_per_day < now" "dict_get (access_time f) 0 = 0"
  shows "spec_is_cold now d f" "spec_cold_score now d f = 1"
proof -
  from assms show "spec_is_cold now d f" by (simp add: spec_is_cold_def)
  have msd: "0 < ms_per_day" by (simp add: ms_per_day_def)
  from assms(1) have dpos: "0 < real_of_int d" by simp
  from msd dpos have "0 < ms_per_day * real_of_int d" by simp
  then have "1 < now / (ms_per_day * real_of_int d)"
    using assms(2) by (simp add: less_divide_eq_1_pos mult.commute)
  then have "1 < now / ms_per_day / real_of_int d" by simp
  with assms(3) show "spec_cold_score now d f = 1"
    by (simp add: spec_cold_score_def spec_days_since_access_def)
qed

lemma spec_cold_score_le_1: "spec_cold_score now d f \<le> 1"
  by (simp add: spec_cold_score_def)

text \<open>
  Thresholds of at least one day: for every record whose \<open>access_time\<close> is 0 or absent and
  every \<open>threshold_days \<ge> 1\<close> with \<open>threshold_days * ms_per_day < now_ms\<close>, the call
  returns and the record is in the cold list with \<open>cold_score\<close> exactly 1; no entry scores
  higher and every entry listed before it has score 1 too.
\<close>

theorem unknown_access_time_scores_one:
  assumes "0 < threshold_days" and "real_of_int threshold_days * ms_per_day < now_ms"
    and "dict_get (access_time f) 0 = 0" and "f \<in> set files"
  shows "\<exists>ys. identify_cold_data now_ms files threshold_days = Inr ys
     \<and> (\<exists>y \<in> set ys. file_info.truncate y = f)
     \<and> (\<forall>y \<in> set ys. file_info.truncate y = f \<longrightarrow> cold_score y = 1)
     \<and> (\<forall>y \<in> set ys. cold_score y \<le> 1)
     \<and> (\<forall>i < length ys. file_info.truncate (ys ! i) = f \<longrightarrow> (\<forall>j < i. cold_score (ys ! j) = 1))"
proof -
  let ?tag = "cold_tag now_ms threshold_days"
  let ?tagged = "map ?tag (filter (spec_is_cold now_ms threshold_days) files)"
  let ?ys = "sort_reverse cold_score ?tagged"
  from assms(1) have run: "identify_cold_data now_ms files threshold_days = Inr ?ys"
    by (simp add: identify_cold_data_pos)
  have setys: "set ?ys = ?tag ` {g \<in> set files. spec_is_cold now_ms threshold_days g}"
    by (simp add: set_sort_reverse)
  from assms have "?tag f \<in> set ?ys"
    unfolding setys using spec_cold_score_unknown(1) [of threshold_days now_ms f] by blast
  then have present: "\<exists>y \<in> set ?ys. file_info.truncate y = f"
    using truncate_cold_tag by blast
  have one: "cold_score y = 1" if "y \<in> set ?ys" "file_info.truncate y = f" for y
  proof -
    from that(1) obtain g where "y = ?tag g" unfolding setys by blast
    with that(2) have "y = ?tag f" by (simp add: truncate_cold_tag)
    with assms show ?thesis
      by (simp add: cold_tag_fields spec_cold_score_unknown(2))
  qed
  have le: "cold_score y \<le> 1" if "y \<in> set ?ys" for y
    using that unfolding setys by (auto simp: cold_tag_fields spec_cold_score_le_1)
  have top: "cold_score (?ys ! j) = 1"
    if "i < length ?ys" "file_info.truncate (?ys ! i) = f" "j < i" for i j
  proof -
    from that have "cold_score (?ys ! i) = 1" by (intro one) simp_all
    moreover have "map cold_score ?ys ! i \<le> map cold_score ?ys ! j"
      using sorted_sort_reverse [of cold_score ?tagged] that
      by (simp only: sorted_rev_iff_nth_mono length_map)
    moreover from that have "cold_score (?ys ! j) \<le> 1" by (intro le) simp
    ultimately show ?thesis using that by simp
  qed
  from run present one le top show ?thesis by blast
qed

theorem unknown_access_time_scores_one_witness:
  "(0::int) < 180 \<and> real_of_int 180 * ms_per_day < 17280000000
   \<and> dict_get (access_time never_accessed) 0 = 0
   \<and> never_accessed \<in> set [accessed_at 17280000000, never_accessed]
   \<and> (\<exists>ys. identify_cold_data 17280000000 [accessed_at 17280000000, never_accessed] 180 = Inr ys
        \<and> (\<exists>y \<in> set ys. file_info.truncate y = never_accessed \<and> cold_score y = 1))"
proof -
  have h1: "(0::int) < 180" by simp
  have h2: "real_of_int 180 * ms_per_day < 17280000000" by (simp add: ms_per_day_def)
  have h3: "dict_get (access_time never_accessed) 0 = 0"
    by (simp add: never_accessed_def dict_get_def)
  have h4: "never_accessed \<in> set [accessed_at 17280000000, never_accessed]" by simp
  from unknown_access_time_scores_one [OF h1 h2 h3 h4] h1 h2 h3 h4 show ?thesis by blast
qed

text \<open>
  C10: a record whose \<open>access_time\<close> is 0, the threshold 0 and the clock reading
  1700000000000 ms satisfy the hypotheses of the claim
  (\<open>threshold_days \<ge> 0\<close> and \<open>threshold_days * ms_per_day < now_ms\<close>). The claim asks for
  the record to be classified as cold with \<open>cold_score\<close> 1; the function raises on the
  division by the threshold.
\<close>

theorem unknown_access_time_zero_threshold_raises:
  "(0::int) \<le> 0 \<and> real_of_int 0 * ms_per_day < 1700000000000
   \<and> dict_get (access_time (accessed_at 0)) 0 = 0
   \<and> identify_cold_data 1700000000000 [accessed_at 0] 0 = Inl ZeroDivisionError"
  by (simp add: identify_cold_data_zero accessed_at_def dict_get_def)

section \<open>Properties of the cost calculator\<close>

text \<open>
  C1: \<open>estimate_storage_growth\<close> on the result of a scan that found no files, whose
  \<open>total_size_gb\<close> is 0. The claim asks for a well-formed result; the function divides the
  projected size by the current size and raises.
\<close>

theorem estimate_storage_growth_empty_scan_raises:
  "estimate_storage_growth StorageCosts_default scan_no_files 20 = Inl ZeroDivisionError"
  by (simp add: estimate_storage_growth_def scan_no_files_def dict_get_def truediv_def)

lemma savings_percent_guarded:
  "savings_percent (calculate_cold_data_savings costs scan) =
     (if current_cost (calculate_cold_data_savings costs scan) > 0
      then savings (calculate_cold_data_savings costs scan)
           / current_cost (calculate_cold_data_savings costs scan) * 100 else 0)"
  "savings_percent (calculate_small_file_savings costs scan) =
     (if current_cost (calculate_small_file_savings costs scan) > 0
      then savings (calculate_small_file_savings costs scan)
           / current_cost (calculate_small_file_savings costs scan) * 100 else 0)"
  "savings_percent (calculate_compression_savings costs scan) =
     (if current_cost (calculate_compression_savings costs scan) > 0
      then savings (calculate_compression_savings costs scan)
           / current_cost (calculate_compression_savings costs scan) * 100 else 0)"
  unfolding calculate_cold_data_savings_def calculate_small_file_savings_def
    calculate_compression_savings_def Let_def
  by (simp_all only: OptimizationSavings.select_convs)

lemma savings_percent_replication:
  "savings_percent (calculate_replication_savings costs scan) =
     (if current_cost (calculate_replication_savings costs scan) > 0
      then savings (calculate_replication_savings costs scan)
           / current_cost (calculate_replication_savings costs scan) * 100 else 0)"
  unfolding calculate_replication_savings_def Let_def case_prod_beta
  by (simp only: OptimizationSavings.select_convs)

lemma cleanup_fields:
  "savings_percent (calculate_cleanup_savings costs scan) = 100"
  "savings (calculate_cleanup_savings costs scan) = current_cost (calculate_cleanup_savings costs scan)"
  "optimized_cost (calculate_cleanup_savings costs scan) = 0"
  unfolding calculate_cleanup_savings_def Let_def
  by (simp_all only: OptimizationSavings.select_convs diff_zero)

text \<open>
  C6 (as amended): in the cold_data, small_files, replication and compression formulas
  \<open>savings_percent\<close> is \<open>savings / current_cost * 100\<close> when \<open>current_cost > 0\<close> and 0
  otherwise. The cleanup formula returns the constant 100 with \<open>savings = current_cost\<close>,
  which is \<open>savings / current_cost * 100\<close> when \<open>current_cost > 0\<close>.
\<close>

theorem savings_percent_formulas:
  fixes costs :: StorageCosts and scan :: scan_results
  defines "guarded s \<equiv>
     savings_percent s = (if current_cost s > 0 then savings s / current_cost s * 100 else 0)"
  shows "guarded (calculate_cold_data_savings costs scan)
     \<and> guarded (calculate_small_file_savings costs scan)
     \<and> guarded (calculate_replication_savings costs scan)
     \<and> guarded (calculate_compression_savings costs scan)
     \<and> savings_percent (calculate_cleanup_savings costs scan) = 100
     \<and> savings (calculate_cleanup_savings costs scan)
         = current_cost (calculate_cleanup_savings costs scan)
     \<and> (current_cost (calculate_cleanup_savings costs scan) > 0 \<longrightarrow>
           savings_percent (calculate_cleanup_savings costs scan)
             = savings (calculate_cleanup_savings costs scan)
               / current_cost (calculate_cleanup_savings costs scan) * 100)"
  unfolding guarded_def
  using savings_percent_guarded [of costs scan] savings_percent_replication [of costs scan]
    cleanup_fields [of costs scan]
  by simp

lemma lower_tmp_path: "lower ''/tmp/old.tmp'' = ''/tmp/old.tmp''"
  by (simp add: lower_def lower_char_def)

lemma orphaned_tmp_file:
  "identify_orphaned_temp_files 8640000000 [tmp_file] =
     [classified.extend (file_info.extend tmp_file (classified.fields ''orphaned_temp''))
        (orphaned_entry.fields 100 ''critical'' ''/tmp/'')]"
  by (simp add: identify_orphaned_temp_files_def sort_reverse_def List.map_filter_simps
      orphaned_entry_of_def tmp_file_def dict_get_def lower_tmp_path temp_patterns_def)

lemma tmp_file_size: "size_bytes tmp_file = Some 1073741824"
  by (simp add: tmp_file_def)

lemma cleanup_cost_tmp_file:
  "current_cost (calculate_cleanup_savings StorageCosts_default scan_tmp_file) = 0.1201"
  by (simp add: calculate_cleanup_savings_def scan_tmp_file_def scan_no_files_def dict_get_def
      orphaned_tmp_file sum_sizes_def len_def StorageCosts_default_def Let_def
      file_info.defs classified.defs orphaned_entry.defs tmp_file_size)

theorem savings_percent_formulas_witness:
  "current_cost (calculate_cleanup_savings StorageCosts_default scan_tmp_file) > 0
   \<and> savings_percent (calculate_cleanup_savings StorageCosts_default scan_tmp_file)
       = savings (calculate_cleanup_savings StorageCosts_default scan_tmp_file)
         / current_cost (calculate_cleanup_savings StorageCosts_default scan_tmp_file) * 100"
proof -
  have pos: "current_cost (calculate_cleanup_savings StorageCosts_default scan_tmp_file) > 0"
    by (simp only: cleanup_cost_tmp_file) simp
  with savings_percent_formulas [of StorageCosts_default scan_tmp_file] show ?thesis
    by blast
qed

text \<open>
  The cleanup formula on a scan with no orphaned files: \<open>current_cost\<close> is 0 and
  \<open>savings_percent\<close> is 100, not 0.
\<close>

theorem cleanup_savings_percent_not_guarded:
  "current_cost (calculate_cleanup_savings StorageCosts_default scan_no_files) = 0
   \<and> savings_percent (calculate_cleanup_savings StorageCosts_default scan_no_files) = 100"
  by (simp add: calculate_cleanup_savings_def scan_no_files_def dict_get_def sum_sizes_def
      len_def)

section \<open>Properties of the plan request\<close>

lemma not_ready_message_distinct:
  "''Scan '' @ sid @ '' is not completed or failed'' \<noteq> ''Scan results not found for ID: '' @ sid"
proof
  assume "''Scan '' @ sid @ '' is not completed or failed'' = ''Scan results not found for ID: '' @ sid"
  then have "length (''Scan '' @ sid @ '' is not completed or failed'')
      = length (''Scan results not found for ID: '' @ sid)"
    by (rule arg_cong)
  then show False by simp
qed

text \<open>
  C2: when the stored scan has a status other than \<open>completed\<close> (or none at all),
  \<open>generate_recommendations\<close> raises \<open>ValueError\<close> with a message that names the scan
  and differs from the message for an unknown scan id; the analysis that would build
  the plan does not influence the outcome, no plan is stored, and the only change to the
  stores is the error record with status \<open>failed\<close> under the optimization id.
\<close>

theorem plan_request_rejected_when_scan_not_completed:
  assumes "scan_results_storage st sid = Some scan"
    and "status scan \<noteq> Some ''completed''"
  shows "generate_recommendations analysis oid sid st =
           (Inl (ValueError (''Scan '' @ sid @ '' is not completed or failed'')),
            st\<lparr>optimization_results_storage := (optimization_results_storage st)(oid \<mapsto>
                 \<lparr>optimization_id = oid, scan_id = sid, status_o = ''failed'',
                  error_o = Some (''Scan '' @ sid @ '' is not completed or failed''),
                  details = None\<rparr>)\<rparr>)
     \<and> script_storage (snd (generate_recommendations analysis oid sid st)) = script_storage st
     \<and> scan_results_storage (snd (generate_recommendations analysis oid sid st))
         = scan_results_storage st
     \<and> fst (generate_recommendations analysis oid sid st)
         \<noteq> Inl (ValueError (''Scan results not found for ID: '' @ sid))"
proof -
  from assms have run: "generate_recommendations analysis oid sid st =
           (Inl (ValueError (''Scan '' @ sid @ '' is not completed or failed'')),
            st\<lparr>optimization_results_storage := (optimization_results_storage st)(oid \<mapsto>
                 \<lparr>optimization_id = oid, scan_id = sid, status_o = ''failed'',
                  error_o = Some (''Scan '' @ sid @ '' is not completed or failed''),
                  details = None\<rparr>)\<rparr>)"
    by (simp add: generate_recommendations_def get_scan_results_def str_of_error_def)
  show ?thesis
    unfolding run using not_ready_message_distinct [of sid] by simp
qed

theorem plan_request_rejected_when_scan_not_completed_witness:
  "scan_results_storage store_failed_scan ''s1'' = Some failed_scan
   \<and> status failed_scan \<noteq> Some ''completed''
   \<and> fst (generate_recommendations (\<lambda>scan. Inr ((), ())) ''o1'' ''s1'' store_failed_scan)
       = Inl (ValueError ''Scan s1 is not completed or failed'')
   \<and> script_storage (snd (generate_recommendations (\<lambda>scan. Inr ((), ())) ''o1'' ''s1''
        store_failed_scan)) ''o1'' = None"
proof -
  have h1: "scan_results_storage store_failed_scan ''s1'' = Some failed_scan"
    by (simp add: store_failed_scan_def)
  have h2: "status failed_scan \<noteq> Some ''completed''"
    by (simp add: failed_scan_def)
  have h3: "script_storage store_failed_scan ''o1'' = None"
    by (simp add: store_failed_scan_def)
  from plan_request_rejected_when_scan_not_completed
    [OF h1 h2, of "\<lambda>scan. Inr ((), ())" "''o1''"] h1 h2 h3
  show ?thesis by simp
qed

section \<open>Properties of the directory analysis\<close>

lemma split_not_Nil: "split sep s \<noteq> []"
  by (induction s) auto

lemma join_split: "join [sep] (split sep s) = s"
proof (induction s)
  case Nil
  show ?case by simp
next
  case (Cons c cs)
  obtain w ws where sp: "split sep cs = w # ws"
    using split_not_Nil [of sep cs] by (cases "split sep cs") auto
  with Cons show ?case
    by (cases ws) auto
qed

lemma join_snoc: "xs \<noteq> [] \<Longrightarrow> join sep (xs @ [l]) = join sep xs @ sep @ l"
  by (induction sep xs rule: join.induct) auto

lemma split_length: "length (split sep s) = Suc (length (filter (\<lambda>c. c = sep) s))"
proof (induction s)
  case (Cons c cs)
  then show ?case using split_not_Nil [of sep cs] by (cases "split sep cs") auto
qed simp

lemma directory_of_root_path:
  assumes "CHR ''/'' \<notin> set name"
  shows "directory_of (CHR ''/'' # name) = ''''"
proof -
  from assms have "filter (\<lambda>c. c = CHR ''/'') name = []"
    by (auto simp: filter_empty_conv)
  then have "length (split CHR ''/'' name) = 1"
    by (simp add: split_length)
  then obtain w where "split CHR ''/'' name = [w]"
    by (cases "split CHR ''/'' name") auto
  then show ?thesis by (simp add: directory_of_def)
qed

lemma directory_of_parent:
  assumes "CHR ''/'' \<in> set p"
  shows "directory_of p @ ''/'' @ last (split CHR ''/'' p) = p"
proof -
  let ?parts = "split CHR ''/'' p"
  from assms have "filter (\<lambda>c. c = CHR ''/'') p \<noteq> []"
    by (auto simp: filter_empty_conv)
  then have "2 \<le> length ?parts"
    by (cases "filter (\<lambda>c. c = CHR ''/'') p") (simp_all add: split_length)
  then have ne: "butlast ?parts \<noteq> []"
    by (cases ?parts rule: rev_cases) auto
  have "?parts = butlast ?parts @ [last ?parts]"
    using split_not_Nil [of "CHR ''/''" p] by simp
  then have "join ''/'' ?parts = join ''/'' (butlast ?parts) @ ''/'' @ last ?parts"
    using join_snoc [OF ne, of "''/''" "last ?parts"] by simp
  with assms show ?thesis
    by (simp add: directory_of_def join_split)
qed

text \<open>
  C4: \<open>analyze_directory_structure\<close> on the single root file \<open>/a.txt\<close>. The claim says the
  file is accumulated under the directory \<open>/\<close>; the code derives the empty string as its
  directory and accumulates it there.
\<close>

theorem root_file_directory_is_empty_string:
  "directory_of ''/a.txt'' = ''''
   \<and> map fst (directory_stats (analyze_directory_structure [root_file])) = ['''']
   \<and> map_of (directory_stats (analyze_directory_structure [root_file])) ''/'' = None"
  by (simp add: directory_of_def analyze_directory_structure_def root_file_def dict_get_def
      Let_def)

section \<open>Properties of the efficiency analysis and the storage waste\<close>

lemma efficiency_loop_acc:
  "efficiency_loop files (s, r, e) =
     (s @ map small_file_entry
            (filter (\<lambda>f. dict_get (size_bytes f) 0 \<noteq> 0
                         \<and> dict_get (size_bytes f) 0 < 64 * 1024 * 1024) files),
      r @ map over_replicated_file_entry (filter spec_is_over_replicated files),
      e @ map empty_file_entry (filter spec_is_empty files))"
  by (induction files arbitrary: s r e)
    (simp_all add: Let_def spec_is_over_replicated_def spec_is_empty_def)

lemma analyze_file_efficiency_lists:
  "small_files_e (analyze_file_efficiency files) =
     map small_file_entry (filter (\<lambda>f. dict_get (size_bytes f) 0 \<noteq> 0
                         \<and> dict_get (size_bytes f) 0 < 64 * 1024 * 1024) files)"
  "inefficient_replication (analyze_file_efficiency files) =
     map over_replicated_file_entry (filter spec_is_over_replicated files)"
  "empty_files_e (analyze_file_efficiency files) = map empty_file_entry (filter spec_is_empty files)"
  "small_files_count (analyze_file_efficiency files) =
     len (filter (\<lambda>f. dict_get (size_bytes f) 0 \<noteq> 0
                         \<and> dict_get (size_bytes f) 0 < 64 * 1024 * 1024) files)"
  "over_replicated_count (analyze_file_efficiency files) = len (filter spec_is_over_replicated files)"
  "empty_files_count (analyze_file_efficiency files) = len (filter spec_is_empty files)"
  by (simp_all add: analyze_file_efficiency_def efficiency_loop_acc Let_def len_def)

lemma len_filter_split:
  "len (filter P xs) = len (filter (\<lambda>x. P x \<and> Q x) xs) + len (filter (\<lambda>x. P x \<and> \<not> Q x) xs)"
  by (induction xs) (auto simp: len_def)

lemma small_file_overhead_count:
  "small_file_overhead_bytes (calculate_storage_waste files) =
     len (filter (\<lambda>f. dict_get (size_bytes f) 0 < 64 * 1024 * 1024) files) * 150"
  by (simp add: calculate_storage_waste_def Let_def)

text \<open>
  C5 (as amended): the small-file overhead of \<open>calculate_storage_waste\<close> is 150 bytes
  times the number of records with \<open>size < 64MiB\<close>. That number is the count of small
  files of \<open>analyze_file_efficiency\<close> plus its count of empty files: a record with
  \<open>size = 0\<close> contributes 150 bytes to this term, besides its \<open>block_size\<close> to the
  empty-file waste. For sizes that are not negative the small files are those with
  \<open>0 < size < 64MiB\<close>.
\<close>

theorem small_file_overhead_counts_empty_files:
  "small_file_overhead_bytes (calculate_storage_waste files) =
     150 * len (filter (\<lambda>f. dict_get (size_bytes f) 0 < 64 * 1024 * 1024) files)
   \<and> small_file_overhead_bytes (calculate_storage_waste files) =
     150 * (small_files_count (analyze_file_efficiency files)
            + empty_files_count (analyze_file_efficiency files))
   \<and> empty_file_waste_bytes (calculate_storage_waste files) =
     sum_list (map (\<lambda>f. dict_get (block_size f) 0) (filter spec_is_empty files))
   \<and> ((\<forall>f \<in> set files. 0 \<le> dict_get (size_bytes f) 0) \<longrightarrow>
        small_files_count (analyze_file_efficiency files) = len (filter spec_is_small files))"
proof -
  let ?sz = "\<lambda>f::file_info. dict_get (size_bytes f) 0"
  let ?lt = "\<lambda>f. ?sz f < 64 * 1024 * 1024"
  have split: "len (filter ?lt files) =
      len (filter (\<lambda>f. ?lt f \<and> ?sz f \<noteq> 0) files) + len (filter (\<lambda>f. ?lt f \<and> \<not> ?sz f \<noteq> 0) files)"
    by (rule len_filter_split)
  have e: "filter (\<lambda>f. ?lt f \<and> \<not> ?sz f \<noteq> 0) files = filter spec_is_empty files"
    by (rule filter_cong) (auto simp: spec_is_empty_def)
  have s: "filter (\<lambda>f. ?lt f \<and> ?sz f \<noteq> 0) files = filter (\<lambda>f. ?sz f \<noteq> 0 \<and> ?lt f) files"
    by (rule filter_cong) auto
  have total: "len (filter ?lt files) =
      small_files_count (analyze_file_efficiency files)
      + empty_files_count (analyze_file_efficiency files)"
    using split by (simp only: e s analyze_file_efficiency_lists)
  have nonneg: "small_files_count (analyze_file_efficiency files) = len (filter spec_is_small files)"
    if "\<forall>f \<in> set files. 0 \<le> ?sz f"
  proof -
    have "filter (\<lambda>f. ?sz f \<noteq> 0 \<and> ?lt f) files = filter spec_is_small files"
      using that by (intro filter_cong) (auto simp: spec_is_small_def)
    then show ?thesis by (simp only: analyze_file_efficiency_lists)
  qed
  have waste: "empty_file_waste_bytes (calculate_storage_waste files) =
     sum_list (map (\<lambda>f. dict_get (block_size f) 0) (filter spec_is_empty files))"
  proof -
    have "spec_is_empty = (\<lambda>f::file_info. dict_get (size_bytes f) 0 = 0)"
      by (simp add: fun_eq_iff spec_is_empty_def)
    then show ?thesis
      by (simp add: calculate_storage_waste_def Let_def)
  qed
  show ?thesis
    using total nonneg waste by (simp add: small_file_overhead_count)
qed

theorem small_file_overhead_counts_empty_files_witness:
  "0 \<le> dict_get (size_bytes empty_file) 0 \<and> 0 \<le> dict_get (size_bytes never_accessed) 0
   \<and> small_file_overhead_bytes (calculate_storage_waste [empty_file, never_accessed]) = 300
   \<and> small_files_count (analyze_file_efficiency [empty_file, never_accessed]) = 1
   \<and> len (filter spec_is_small [empty_file, never_accessed]) = 1"
proof -
  have h: "\<forall>f \<in> set [empty_file, never_accessed]. 0 \<le> dict_get (size_bytes f) 0"
    by (simp add: empty_file_def never_accessed_def dict_get_def)
  have c: "len (filter (\<lambda>f. dict_get (size_bytes f) 0 < 64 * 1024 * 1024)
      [empty_file, never_accessed]) = 2"
    by (simp add: empty_file_def never_accessed_def dict_get_def len_def)
  have s: "len (filter spec_is_small [empty_file, never_accessed]) = 1"
    by (simp add: spec_is_small_def empty_file_def never_accessed_def dict_get_def len_def)
  from small_file_overhead_counts_empty_files [of "[empty_file, never_accessed]"] h c s
  show ?thesis by simp
qed

text \<open>
  One empty file: no record has \<open>0 < size < 64MiB\<close>, and the small-file overhead is 150
  bytes, not 0.
\<close>

theorem small_file_overhead_of_empty_file:
  "filter spec_is_small [empty_file] = []
   \<and> small_files_count (analyze_file_efficiency [empty_file]) = 0
   \<and> small_file_overhead_bytes (calculate_storage_waste [empty_file]) = 150
   \<and> empty_file_waste_bytes (calculate_storage_waste [empty_file]) = 134217728"
  by (simp add: spec_is_small_def empty_file_def dict_get_def analyze_file_efficiency_def
      calculate_storage_waste_def len_def Let_def)

section \<open>Scenario A\<close>

lemma scenario_a_fields:
  "path (scenario_a_file t) = Some ''/data/a.parquet''"
  "size_bytes (scenario_a_file t) = Some 209715200"
  "replication (scenario_a_file t) = Some 3"
  "access_time (scenario_a_file t) = Some t"
  "modification_time (scenario_a_file t) = Some t"
  by (simp_all add: scenario_a_file_def)

lemma scenario_a_not_cold:
  "identify_cold_data (real_of_int t) [scenario_a_file t] 180 = Inr []"
  by (simp add: identify_cold_data_pos spec_is_cold_def scenario_a_fields dict_get_def
      ms_per_day_def sort_reverse_Nil)

lemma lower_parquet_path: "lower ''/data/a.parquet'' = ''/data/a.parquet''"
  by (simp add: lower_def lower_char_def)

lemma scenario_a_orphaned_entry: "orphaned_entry_of now (scenario_a_file t) = None"
  by (simp add: orphaned_entry_of_def Let_def scenario_a_fields dict_get_def lower_parquet_path
      temp_patterns_def)

lemma scenario_a_not_orphaned:
  "identify_orphaned_temp_files now [scenario_a_file t] = []"
  by (simp add: identify_orphaned_temp_files_def List.map_filter_simps scenario_a_orphaned_entry
      sort_reverse_Nil)

lemma scenario_a_efficiency:
  "small_files_e (analyze_file_efficiency [scenario_a_file t]) = []"
  "inefficient_replication (analyze_file_efficiency [scenario_a_file t]) = []"
  "empty_files_e (analyze_file_efficiency [scenario_a_file t]) = []"
  "small_files_count (analyze_file_efficiency [scenario_a_file t]) = 0"
  "over_replicated_count (analyze_file_efficiency [scenario_a_file t]) = 0"
  by (simp_all add: analyze_file_efficiency_lists spec_is_over_replicated_def spec_is_empty_def
      scenario_a_fields dict_get_def len_def)

lemma scenario_a_priorities:
  "generate_optimization_priority (real_of_int t) now [scenario_a_file t] = Inr []"
  by (simp add: generate_optimization_priority_def scenario_a_not_cold scenario_a_not_orphaned
      build_optimizations_def scenario_a_efficiency sort_by_key_reverse_def sort_reverse_Nil
      Let_def)

lemma scenario_a_scan:
  "execute_scan (real_of_int t) now (real_of_int t) now' [scenario_a_file t] =
     Inr \<lparr>status = Some ''completed'',
          total_files = Some 1,
          total_size_gb = Some (25 / 128),
          cold_data = Some [],
          duplicate_candidates = Some (detect_duplicate_candidates [scenario_a_file t]),
          small_files = Some [],
          empty_files = Some [],
          orphaned_files = Some [],
          over_replicated_files = Some [],
          efficiency_analysis = Some \<lparr>inefficient_replication_s = None\<rparr>,
          directory_analysis_s = Some (analyze_directory_structure [scenario_a_file t]),
          waste_analysis_s = Some (calculate_storage_waste [scenario_a_file t]),
          optimization_priorities = Some []\<rparr>"
  by (simp add: execute_scan_def scenario_a_not_cold scenario_a_not_orphaned
      scenario_a_priorities scenario_a_efficiency sum_sizes_def scenario_a_fields dict_get_def
      len_def Let_def)

text \<open>
  C7 (as amended): for the one file of scenario A (200 MiB, replication 3, accessed at the
  clock reading, path \<open>/data/a.parquet\<close>) the cold-data, small-file, over-replicated and
  orphaned classifications are all empty, the scan reports \<open>total_size_gb = 200/1024\<close>, and
  \<open>calculate_current_costs\<close> with the default rates returns
  \<open>storage_cost = 200/1024 * 0.04 * 3 = 0.0234375\<close>.
\<close>

theorem scenario_a:
  "identify_cold_data (real_of_int t) [scenario_a_file t] 180 = Inr []
   \<and> small_files_e (analyze_file_efficiency [scenario_a_file t]) = []
   \<and> inefficient_replication (analyze_file_efficiency [scenario_a_file t]) = []
   \<and> identify_orphaned_temp_files (real_of_int t) [scenario_a_file t] = []
   \<and> (\<exists>scan. execute_scan (real_of_int t) (real_of_int t) (real_of_int t) (real_of_int t)
                 [scenario_a_file t] = Inr scan
         \<and> cold_data scan = Some [] \<and> small_files scan = Some []
         \<and> over_replicated_files scan = Some [] \<and> orphaned_files scan = Some []
         \<and> total_size_gb scan = Some (200 / 1024)
         \<and> storage_cost (calculate_current_costs StorageCosts_default scan)
             = 200 / 1024 * 0.04 * 3
         \<and> storage_cost (calculate_current_costs StorageCosts_default scan) = 0.0234375)"
  by (simp add: scenario_a_not_cold scenario_a_efficiency scenario_a_not_orphaned
      scenario_a_scan calculate_current_costs_def StorageCosts_default_def dict_get_def Let_def)

text \<open>
  The storage cost of scenario A, at the clock reading 0, is 0.0234375: it is not within
  23 of the value 24.0 the claim states.
\<close>

theorem scenario_a_storage_cost_is_not_24:
  "\<exists>scan. execute_scan 0 0 0 0 [scenario_a_file 0] = Inr scan
     \<and> storage_cost (calculate_current_costs StorageCosts_default scan) = 3 / 128
     \<and> 23 < \<bar>storage_cost (calculate_current_costs StorageCosts_default scan) - 24\<bar>"
  using scenario_a_scan [of 0 0 0]
  by (simp add: calculate_current_costs_def StorageCosts_default_def dict_get_def Let_def)

section \<open>Properties of the priority list\<close>

lemma insort_key_fst_map:
  "insort_key fst (k x, x) (map (\<lambda>x. (k x, x)) ys) = map (\<lambda>x. (k x, x)) (insort_key k x ys)"
  by (induction ys) simp_all

lemma sort_key_fst_map:
  "sort_key fst (map (\<lambda>x. (k x, x)) xs) = map (\<lambda>x. (k x, x)) (sort_key k xs)"
  by (induction xs) (simp_all add: insort_key_fst_map)

lemma undecorate_sort_reverse:
  "map snd (sort_reverse fst (map (\<lambda>x. (k x, x)) xs)) = sort_reverse k xs"
proof -
  have "sort_key fst (rev (map (\<lambda>x. (k x, x)) xs)) = map (\<lambda>x. (k x, x)) (sort_key k (rev xs))"
    using sort_key_fst_map [of k "rev xs"] by (simp add: rev_map)
  then show ?thesis
    by (simp add: sort_reverse_def rev_map o_def)
qed

lemma priority_order_rank:
  "tag \<in> {''high'', ''medium'', ''low''} \<Longrightarrow> priority_order tag = Some (spec_rank tag)"
  by (auto simp: priority_order_def spec_rank_def)

lemma priority_key_valid:
  "priority x \<in> {''high'', ''medium'', ''low''} \<Longrightarrow> impact x \<in> {''high'', ''medium'', ''low''}
     \<Longrightarrow> priority_key x = Inr (spec_key x)"
  by (simp add: priority_key_def spec_key_def priority_order_rank)

lemma decorate_valid:
  "\<forall>x \<in> set xs. priority_key x = Inr (k x) \<Longrightarrow>
     decorate priority_key xs = Inr (map (\<lambda>x. (k x, x)) xs)"
  by (induction xs) simp_all

lemma sort_by_key_reverse_valid:
  "\<forall>x \<in> set xs. priority_key x = Inr (spec_key x) \<Longrightarrow>
     sort_by_key_reverse priority_key xs = Inr (sort_reverse spec_key xs)"
  using decorate_valid [of xs spec_key]
  by (simp add: sort_by_key_reverse_def undecorate_sort_reverse)

lemma entry_tags:
  "opt_tags (cold_data_migration c) = (''cold_data_migration'', ''high'', ''high'')"
  "opt_tags (small_file_consolidation e) = (''small_file_consolidation'', ''high'', ''medium'')"
  "opt_tags (orphaned_file_cleanup r) = (''orphaned_file_cleanup'', ''medium'', ''medium'')"
  "opt_tags (replication_optimization e w) = (''replication_optimization'', ''medium'', ''high'')"
  by (simp_all add: opt_tags_def cold_data_migration_def small_file_consolidation_def
      orphaned_file_cleanup_def replication_optimization_def)

lemma entry_keys:
  "spec_key (cold_data_migration c) = (3, 3)"
  "spec_key (small_file_consolidation e) = (3, 2)"
  "spec_key (orphaned_file_cleanup r) = (2, 2)"
  "spec_key (replication_optimization e w) = (2, 3)"
  by (simp_all add: spec_key_def spec_rank_def cold_data_migration_def
      small_file_consolidation_def orphaned_file_cleanup_def replication_optimization_def)

lemma entry_priority_keys:
  "priority_key (cold_data_migration c) = Inr (spec_key (cold_data_migration c))"
  "priority_key (small_file_consolidation e) = Inr (spec_key (small_file_consolidation e))"
  "priority_key (orphaned_file_cleanup r) = Inr (spec_key (orphaned_file_cleanup r))"
  "priority_key (replication_optimization e w) = Inr (spec_key (replication_optimization e w))"
  by (rule priority_key_valid;
      simp add: cold_data_migration_def small_file_consolidation_def
        orphaned_file_cleanup_def replication_optimization_def)+

lemma tags_key_opt_tags: "tags_key (opt_tags x) = spec_key x"
  by (simp add: tags_key_def opt_tags_def spec_key_def)

lemma build_optimizations_tags:
  "map opt_tags (build_optimizations c e r w) =
     spec_candidates (c \<noteq> []) (small_files_count e > 0) (r \<noteq> []) (over_replicated_count e > 0)"
  by (simp add: build_optimizations_def spec_candidates_def entry_tags Let_def)

lemma build_optimizations_keys:
  "\<forall>x \<in> set (build_optimizations c e r w). priority_key x = Inr (spec_key x)"
  by (simp add: build_optimizations_def entry_priority_keys Let_def)

lemma sorted_build_optimizations:
  "map opt_tags (sort_reverse spec_key (build_optimizations c e r w)) =
     spec_ranked (c \<noteq> []) (small_files_count e > 0) (r \<noteq> []) (over_replicated_count e > 0)"
  by (simp add: build_optimizations_def spec_ranked_def entry_tags entry_keys Let_def
      sort_reverse_def)

lemma len_pos_iff: "len xs > 0 \<longleftrightarrow> xs \<noteq> []"
  by (simp add: len_def)

lemma small_files_count_pos:
  "small_files_count (analyze_file_efficiency files) > 0
     \<longleftrightarrow> small_files_e (analyze_file_efficiency files) \<noteq> []"
  by (simp add: analyze_file_efficiency_lists len_pos_iff)

lemma over_replicated_count_pos:
  "over_replicated_count (analyze_file_efficiency files) > 0
     \<longleftrightarrow> inefficient_replication (analyze_file_efficiency files) \<noteq> []"
  by (simp add: analyze_file_efficiency_lists len_pos_iff)

text \<open>
  C9: \<open>generate_optimization_priority\<close> returns, for every input and every pair of clock
  readings, one entry per non-empty category with the fixed tags, sorted descending by
  the rank pair of priority and impact, entries of equal rank pair in construction
  order. The four rank pairs differ, so the result is always in the order cold data,
  small files, replication, orphaned files.
\<close>

theorem generate_optimization_priority_order:
  fixes time_cold time_orphaned :: real and files :: "file_info list"
  defines "has_cold \<equiv> identify_cold_data time_cold files 180 \<noteq> Inr []"
    and "has_small \<equiv> small_files_e (analyze_file_efficiency files) \<noteq> []"
    and "has_orphaned \<equiv> identify_orphaned_temp_files time_orphaned files \<noteq> []"
    and "has_over \<equiv> inefficient_replication (analyze_file_efficiency files) \<noteq> []"
  shows "\<exists>opts. generate_optimization_priority time_cold time_orphaned files = Inr opts
     \<and> mset (map opt_tags opts) = mset (spec_candidates has_cold has_small has_orphaned has_over)
     \<and> sorted (rev (map spec_key opts))
     \<and> (\<forall>k. filter (\<lambda>t. tags_key t = k) (map opt_tags opts)
            = filter (\<lambda>t. tags_key t = k)
                (spec_candidates has_cold has_small has_orphaned has_over))
     \<and> map opt_tags opts = spec_ranked has_cold has_small has_orphaned has_over"
proof -
  obtain cold where cold: "identify_cold_data time_cold files 180 = Inr cold"
    by (simp add: identify_cold_data_pos)
  let ?e = "analyze_file_efficiency files"
  let ?r = "identify_orphaned_temp_files time_orphaned files"
  let ?w = "calculate_storage_waste files"
  let ?built = "build_optimizations cold ?e ?r ?w"
  let ?opts = "sort_reverse spec_key ?built"
  have run: "generate_optimization_priority time_cold time_orphaned files = Inr ?opts"
    using build_optimizations_keys [of cold ?e ?r ?w]
    by (simp add: generate_optimization_priority_def cold Let_def sort_by_key_reverse_valid)
  have flags: "has_cold \<longleftrightarrow> cold \<noteq> []" "has_small \<longleftrightarrow> small_files_count ?e > 0"
    "has_orphaned \<longleftrightarrow> ?r \<noteq> []" "has_over \<longleftrightarrow> over_replicated_count ?e > 0"
    by (simp_all add: has_cold_def has_small_def has_orphaned_def has_over_def cold
        small_files_count_pos over_replicated_count_pos)
  have built: "map opt_tags ?built = spec_candidates has_cold has_small has_orphaned has_over"
    by (simp only: build_optimizations_tags flags)
  have members: "mset (map opt_tags ?opts)
      = mset (spec_candidates has_cold has_small has_orphaned has_over)"
  proof -
    have "mset ?opts = mset ?built" by (rule mset_sort_reverse)
    then have "mset (map opt_tags ?opts) = mset (map opt_tags ?built)"
      by (metis mset_map)
    then show ?thesis by (simp only: built)
  qed
  have ties: "filter (\<lambda>t. tags_key t = k) (map opt_tags ?opts)
      = filter (\<lambda>t. tags_key t = k) (spec_candidates has_cold has_small has_orphaned has_over)"
    for k
  proof -
    have "filter (\<lambda>t. tags_key t = k) (map opt_tags ?opts)
        = map opt_tags (filter (\<lambda>x. spec_key x = k) ?opts)"
      by (simp add: filter_map o_def tags_key_opt_tags)
    also have "\<dots> = map opt_tags (filter (\<lambda>x. spec_key x = k) ?built)"
      by (simp only: sort_reverse_stable)
    also have "\<dots> = filter (\<lambda>t. tags_key t = k) (map opt_tags ?built)"
      by (simp add: filter_map o_def tags_key_opt_tags)
    finally show ?thesis by (simp only: built)
  qed
  have ranked: "map opt_tags ?opts = spec_ranked has_cold has_small has_orphaned has_over"
    by (simp only: sorted_build_optimizations flags)
  from run members sorted_sort_reverse [of spec_key ?built] ties ranked show ?thesis
    by blast
qed

lemma cold_tmp_file:
  "identify_cold_data 17280000000 [tmp_file] 180 \<noteq> Inr []"
  by (simp add: identify_cold_data_pos spec_is_cold_def tmp_file_def dict_get_def ms_per_day_def
      sort_reverse_single)

lemma orphaned_tmp_file_200:
  "identify_orphaned_temp_files 17280000000 [tmp_file] \<noteq> []"
  by (simp add: identify_orphaned_temp_files_def sort_reverse_def List.map_filter_simps
      orphaned_entry_of_def tmp_file_def dict_get_def lower_tmp_path temp_patterns_def)

lemma efficiency_tmp_file:
  "small_files_e (analyze_file_efficiency [tmp_file]) = []"
  "inefficient_replication (analyze_file_efficiency [tmp_file]) \<noteq> []"
  by (simp_all add: analyze_file_efficiency_lists spec_is_over_replicated_def tmp_file_def
      dict_get_def)

theorem generate_optimization_priority_order_witness:
  "\<exists>opts. generate_optimization_priority 17280000000 17280000000 [tmp_file] = Inr opts
     \<and> map opt_tags opts = [(''cold_data_migration'', ''high'', ''high''),
                             (''replication_optimization'', ''medium'', ''high''),
                             (''orphaned_file_cleanup'', ''medium'', ''medium'')]"
proof -
  have ranked: "spec_ranked (identify_cold_data 17280000000 [tmp_file] 180 \<noteq> Inr [])
      (small_files_e (analyze_file_efficiency [tmp_file]) \<noteq> [])
      (identify_orphaned_temp_files 17280000000 [tmp_file] \<noteq> [])
      (inefficient_replication (analyze_file_efficiency [tmp_file]) \<noteq> [])
    = [(''cold_data_migration'', ''high'', ''high''),
       (''replication_optimization'', ''medium'', ''high''),
       (''orphaned_file_cleanup'', ''medium'', ''medium'')]"
    by (simp add: cold_tmp_file orphaned_tmp_file_200 efficiency_tmp_file spec_ranked_def)
  from generate_optimization_priority_order
    [where time_cold = 17280000000 and time_orphaned = 17280000000 and files = "[tmp_file]"]
  show ?thesis
    unfolding ranked by (elim exE conjE, intro exI conjI) assumption+
qed

section \<open>Dependence of the classifiers on the clock\<close>

lemma spec_days_inj:
  "spec_days_since_access t1 f = spec_days_since_access t2 f \<Longrightarrow> t1 = t2"
  by (simp add: spec_days_since_access_def ms_per_day_def)

lemma cold_tag_inj:
  assumes "cold_tag t1 d f1 = cold_tag t2 d f2"
  shows "t1 = t2"
proof -
  from assms have "file_info.truncate (cold_tag t1 d f1) = file_info.truncate (cold_tag t2 d f2)"
    by simp
  then have f: "f1 = f2" by (simp add: truncate_cold_tag)
  from assms have "days_since_access (cold_tag t1 d f1) = days_since_access (cold_tag t2 d f2)"
    by simp
  with f show ?thesis
    by (simp add: cold_tag_fields spec_days_inj)
qed

lemma identify_cold_data_clock:
  assumes "d \<noteq> 0" and "identify_cold_data t1 files d \<noteq> Inr []"
    and "identify_cold_data t2 files d = identify_cold_data t1 files d"
  shows "t2 = t1"
proof -
  let ?ys = "\<lambda>t. sort_reverse cold_score (map (cold_tag t d) (filter (spec_is_cold t d) files))"
  from assms have eq: "?ys t2 = ?ys t1" and ne: "?ys t1 \<noteq> []"
    by (simp_all add: identify_cold_data_pos)
  from ne obtain y where y1: "y \<in> set (?ys t1)"
    by (cases "?ys t1") auto
  with eq have y2: "y \<in> set (?ys t2)" by simp
  from y1 obtain f1 where "y = cold_tag t1 d f1" by (auto simp: set_sort_reverse)
  moreover from y2 obtain f2 where "y = cold_tag t2 d f2" by (auto simp: set_sort_reverse)
  ultimately show ?thesis using cold_tag_inj [of t2 d f2 t1 f1] by simp
qed

lemma orphaned_entry_of_Some:
  assumes "orphaned_entry_of t f = Some y"
  shows "file_info.truncate y = f"
    and "age_days y = (t - real_of_int (dict_get (modification_time f) 0)) / ms_per_day"
  using assms
  by (auto simp: orphaned_entry_of_def Let_def ms_per_day_def file_info.defs classified.defs
      orphaned_entry.defs split: if_splits)

lemma set_map_filter: "set (List.map_filter g xs) = {y. \<exists>x \<in> set xs. g x = Some y}"
  by (induction xs) (auto simp: List.map_filter_simps split: option.splits)

lemma set_identify_orphaned:
  "set (identify_orphaned_temp_files t files) = {y. \<exists>f \<in> set files. orphaned_entry_of t f = Some y}"
  by (simp add: identify_orphaned_temp_files_def set_sort_reverse set_map_filter)

lemma identify_orphaned_clock:
  assumes "identify_orphaned_temp_files t1 files \<noteq> []"
    and "identify_orphaned_temp_files t2 files = identify_orphaned_temp_files t1 files"
  shows "t2 = t1"
proof -
  from assms(1) obtain y where y1: "y \<in> set (identify_orphaned_temp_files t1 files)"
    by (cases "identify_orphaned_temp_files t1 files") auto
  with assms(2) have y2: "y \<in> set (identify_orphaned_temp_files t2 files)" by simp
  from y1 obtain f1 where f1: "orphaned_entry_of t1 f1 = Some y"
    by (auto simp: set_identify_orphaned)
  from y2 obtain f2 where f2: "orphaned_entry_of t2 f2 = Some y"
    by (auto simp: set_identify_orphaned)
  from orphaned_entry_of_Some(1) [OF f1] orphaned_entry_of_Some(1) [OF f2] have "f1 = f2"
    by simp
  with orphaned_entry_of_Some(2) [OF f1] orphaned_entry_of_Some(2) [OF f2] show ?thesis
    by (simp add: ms_per_day_def)
qed

lemma identify_cold_data_entries:
  assumes "has_entries (Cold_data (identify_cold_data t files d))"
  shows "d \<noteq> 0" and "identify_cold_data t files d \<noteq> Inr []"
proof -
  from assms show "d \<noteq> 0"
    by (auto simp: identify_cold_data_zero split: if_splits)
  from assms show "identify_cold_data t files d \<noteq> Inr []"
    by auto
qed

text \<open>
  C8 (as amended): for each of the six classifiers, two calls on the same unchanged input
  yield identical output when both calls observe the same clock reading. The analyses of
  file efficiency, duplicates, directories and storage waste do not read the clock, and
  their two outputs are identical whatever the two readings are. The cold-data classifier
  and the orphaned-file classifier read the clock once per call and record the age they
  compute in every entry: when the first call returns at least one entry, the second call
  returns the identical output exactly when it observes the same reading.
\<close>

theorem classifier_calls_and_clock:
  "(\<not> reads_clock c \<longrightarrow> run_classifier c t2 files = run_classifier c t1 files)
   \<and> (t2 = t1 \<longrightarrow> run_classifier c t2 files = run_classifier c t1 files)
   \<and> (reads_clock c \<and> has_entries (run_classifier c t1 files) \<longrightarrow>
        (run_classifier c t2 files = run_classifier c t1 files \<longleftrightarrow> t2 = t1))"
proof (cases c)
  case (Identify_cold_data d)
  have "t2 = t1"
    if "has_entries (Cold_data (identify_cold_data t1 files d))"
      and "identify_cold_data t2 files d = identify_cold_data t1 files d"
    using identify_cold_data_clock [of d t1 files t2] identify_cold_data_entries [OF that(1)]
      that(2) by simp
  with Identify_cold_data show ?thesis by auto
next
  case Identify_orphaned_temp_files
  then show ?thesis
    using identify_orphaned_clock [of t1 files t2] by auto
qed simp_all

theorem classifier_calls_and_clock_witness:
  "\<not> reads_clock Calculate_storage_waste
   \<and> run_classifier Calculate_storage_waste 17366400000 [tmp_file]
       = run_classifier Calculate_storage_waste 17280000000 [tmp_file]
   \<and> reads_clock Identify_orphaned_temp_files
   \<and> has_entries (run_classifier Identify_orphaned_temp_files 17280000000 [tmp_file])
   \<and> run_classifier Identify_orphaned_temp_files 17366400000 [tmp_file]
       \<noteq> run_classifier Identify_orphaned_temp_files 17280000000 [tmp_file]
   \<and> reads_clock (Identify_cold_data 180)
   \<and> has_entries (run_classifier (Identify_cold_data 180) 17280000000 [tmp_file])
   \<and> run_classifier (Identify_cold_data 180) 17366400000 [tmp_file]
       \<noteq> run_classifier (Identify_cold_data 180) 17280000000 [tmp_file]"
proof -
  have t: "(17366400000::real) \<noteq> 17280000000" by simp
  have o: "has_entries (run_classifier Identify_orphaned_temp_files 17280000000 [tmp_file])"
    using orphaned_tmp_file_200 by simp
  have c: "has_entries (run_classifier (Identify_cold_data 180) 17280000000 [tmp_file])"
    using cold_tmp_file
    by (cases "identify_cold_data 17280000000 [tmp_file] 180")
      (simp_all add: identify_cold_data_pos)
  from classifier_calls_and_clock
      [of Calculate_storage_waste 17366400000 "[tmp_file]" 17280000000]
    classifier_calls_and_clock
      [of Identify_orphaned_temp_files 17366400000 "[tmp_file]" 17280000000]
    classifier_calls_and_clock
      [of "Identify_cold_data 180" 17366400000 "[tmp_file]" 17280000000]
    t o c
  show ?thesis by simp
qed

text \<open>
  The same file classified at two clock readings one day apart: the recorded age differs,
  and a file that is not cold at the first reading is cold at a later one.
\<close>

theorem classifier_output_changes_with_clock:
  "map age_days (identify_orphaned_temp_files 8640000000 [tmp_file]) = [100]
   \<and> map age_days (identify_orphaned_temp_files 8726400000 [tmp_file]) = [101]
   \<and> identify_cold_data 0 [never_accessed] 180 = Inr []
   \<and> identify_cold_data 17280000000 [never_accessed] 180
       = Inr [cold_tag 17280000000 180 never_accessed]
   \<and> identify_cold_data 17366400000 [never_accessed] 180
       = Inr [cold_tag 17366400000 180 never_accessed]
   \<and> days_since_access (cold_tag 17280000000 180 never_accessed) = 200
   \<and> days_since_access (cold_tag 17366400000 180 never_accessed) = 201"
proof -
  have orphaned: "map age_days (identify_orphaned_temp_files 8640000000 [tmp_file]) = [100]"
    "map age_days (identify_orphaned_temp_files 8726400000 [tmp_file]) = [101]"
    by (simp_all add: identify_orphaned_temp_files_def sort_reverse_def
        orphaned_entry_of_def tmp_file_def dict_get_def lower_tmp_path temp_patterns_def
        file_info.defs classified.defs orphaned_entry.defs)
  have cold: "identify_cold_data 0 [never_accessed] 180 = Inr []"
    "identify_cold_data 17280000000 [never_accessed] 180
       = Inr [cold_tag 17280000000 180 never_accessed]"
    "identify_cold_data 17366400000 [never_accessed] 180
       = Inr [cold_tag 17366400000 180 never_accessed]"
    by (simp_all add: identify_cold_data_pos spec_is_cold_def never_accessed_def dict_get_def
        ms_per_day_def sort_reverse_Nil sort_reverse_single)
  have days: "days_since_access (cold_tag 17280000000 180 never_accessed) = 200"
    "days_since_access (cold_tag 17366400000 180 never_accessed) = 201"
    by (simp_all add: cold_tag_fields spec_days_since_access_def never_accessed_def
        dict_get_def ms_per_day_def)
  from orphaned cold days show ?thesis by simp
qed

end
